theory Spec2Isabelle
  imports Main "HOL-Library.Word"
begin

section \<open>Conversation Store: the MemoryDO durable object (\<^verbatim>\<open>worker/memory_do.ts\<close>)\<close>

text \<open>
  Exceptions of the JavaScript runtime that the modelled code can raise or let escape.
\<close>

datatype exn = SyntaxError | TypeError | UpstreamError | StoreError

text \<open>
  A request as \<open>MemoryDO.fetch\<close> reads it: the method, the path of the URL and the outcome
  of \<open>request.json()\<close> (\<open>None\<close> when the body is not JSON, so that the call throws).
  The object never inspects a message, hence the type parameter.
\<close>

record 'm do_request =
  do_method :: string
  do_pathname :: string
  do_body :: "'m option"

datatype 'm do_response =
    HistoryJson "'m list"
  | AppendJson bool nat
  | OkJson bool
  | NotFound404

text \<open>
  The durable storage of one object holds at most the key \<open>"history"\<close>: \<open>None\<close> is the
  absent key, which \<open>storage.get\<close> reports as \<open>undefined\<close>.
\<close>

type_synonym 'm storage = "'m list option"

definition storage_get_history :: "'m storage \<Rightarrow> 'm list" where
  "storage_get_history st = (case st of None \<Rightarrow> [] | Some h \<Rightarrow> h)"

text \<open>\<open>xs.slice(-n)\<close>: the last \<open>n\<close> elements, the whole array when it is shorter.\<close>

definition slice_last :: "nat \<Rightarrow> 'a list \<Rightarrow> 'a list" where
  "slice_last n xs = drop (length xs - n) xs"

definition MemoryDO_fetch ::
  "'m do_request \<Rightarrow> 'm storage \<Rightarrow> (exn + 'm do_response) \<times> 'm storage" where
  "MemoryDO_fetch request st =
     (if do_method request = ''GET'' \<and> do_pathname request = ''/get'' then
        (let history = storage_get_history st in (Inr (HistoryJson history), st))
      else if do_method request = ''POST'' \<and> do_pathname request = ''/append'' then
        (case do_body request of
           None \<Rightarrow> (Inl SyntaxError, st)
         | Some msg \<Rightarrow>
             (let history = storage_get_history st @ [msg];
                  trimmed = slice_last 20 history
              in (Inr (AppendJson True (length trimmed)), Some trimmed)))
      else if do_method request = ''POST'' \<and> do_pathname request = ''/clear'' then
        (Inr (OkJson True), None)
      else (Inr NotFound404, st))"

text \<open>
  The namespace \<open>env.MEMORY\<close>: one object, with its own storage, per identity name
  (\<open>idFromName\<close> followed by \<open>get\<close>). \<open>stub_fetch\<close> is \<open>stub.fetch\<close> on the stub of
  identity \<open>u\<close>.
\<close>

type_synonym ('u, 'm) memory = "'u \<Rightarrow> 'm storage"

definition stub_fetch ::
  "'u \<Rightarrow> 'm do_request \<Rightarrow> ('u, 'm) memory \<Rightarrow> (exn + 'm do_response) \<times> ('u, 'm) memory" where
  "stub_fetch u request mem =
     (case MemoryDO_fetch request (mem u) of (res, st') \<Rightarrow> (res, mem(u := st')))"

definition get_req :: "'m do_request" where
  "get_req = \<lparr>do_method = ''GET'', do_pathname = ''/get'', do_body = None\<rparr>"

definition append_req :: "'m \<Rightarrow> 'm do_request" where
  "append_req msg = \<lparr>do_method = ''POST'', do_pathname = ''/append'', do_body = Some msg\<rparr>"

definition clear_req :: "'m do_request" where
  "clear_req = \<lparr>do_method = ''POST'', do_pathname = ''/clear'', do_body = None\<rparr>"

text \<open>
  A sequence of requests to the stub of one identity, each awaited before the next is
  sent; the run stops at the first exception, as a chain of \<open>await\<close>s does, and keeps
  what was stored until then.
\<close>

fun stub_run ::
  "'u \<Rightarrow> 'm do_request list \<Rightarrow> ('u, 'm) memory \<Rightarrow>
     (exn + 'm do_response list) \<times> ('u, 'm) memory" where
  "stub_run u [] mem = (Inr [], mem)"
| "stub_run u (r # rs) mem =
     (case stub_fetch u r mem of
        (Inl e, mem') \<Rightarrow> (Inl e, mem')
      | (Inr resp, mem') \<Rightarrow>
          (case stub_run u rs mem' of
             (Inl e, mem'') \<Rightarrow> (Inl e, mem'')
           | (Inr resps, mem'') \<Rightarrow> (Inr (resp # resps), mem'')))"

text \<open>The bound of the history, as an invariant of a storage.\<close>

definition bounded :: "'m storage \<Rightarrow> bool" where
  "bounded st = (length (storage_get_history st) \<le> 20)"

section \<open>JavaScript strings and the platform functions the worker calls\<close>

text \<open>
  A JavaScript string is a sequence of UTF-16 code units; the chunks of a byte stream are
  \<open>Uint8Array\<close>s. \<open>js\<close> writes an ASCII literal as a JavaScript string.
\<close>

type_synonym byte = "8 word"
type_synonym cunit = "16 word"
type_synonym jsstring = "cunit list"

definition js :: "string \<Rightarrow> jsstring" where
  "js s = map of_char s"

text \<open>\<open>s.startsWith(p)\<close>.\<close>

fun starts_with :: "'a list \<Rightarrow> 'a list \<Rightarrow> bool" where
  "starts_with s [] = True"
| "starts_with [] (p # ps) = False"
| "starts_with (c # cs) (p # ps) = (c = p \<and> starts_with cs ps)"

text \<open>\<open>s.indexOf(needle)\<close>: the first position where \<open>needle\<close> occurs, \<open>None\<close> for \<open>-1\<close>.\<close>

fun index_of :: "'a list \<Rightarrow> 'a list \<Rightarrow> nat option" where
  "index_of [] needle = (if needle = [] then Some 0 else None)"
| "index_of (c # cs) needle =
     (if starts_with (c # cs) needle then Some 0 else map_option Suc (index_of cs needle))"

text \<open>\<open>s.split(sep)\<close> for a separator of one code unit: never an empty array.\<close>

fun split_on :: "'a \<Rightarrow> 'a list \<Rightarrow> 'a list list" where
  "split_on sep [] = [[]]"
| "split_on sep (c # cs) =
     (if c = sep then [] # split_on sep cs
      else (case split_on sep cs of [] \<Rightarrow> [[c]] | p # ps \<Rightarrow> (c # p) # ps))"

text \<open>
  \<open>s.trim()\<close> removes the white space and line terminators of ECMAScript from both ends:
  TAB, LF, VT, FF, CR, SP, NBSP, U+1680, U+2000 to U+200A, LS, PS, U+202F, U+205F, U+3000
  and U+FEFF.
\<close>

definition is_js_space :: "cunit \<Rightarrow> bool" where
  "is_js_space c =
     ((0x09 \<le> c \<and> c \<le> 0x0D) \<or> c = 0x20 \<or> c = 0xA0 \<or> c = 0x1680 \<or>
      (0x2000 \<le> c \<and> c \<le> 0x200A) \<or> c = 0x2028 \<or> c = 0x2029 \<or> c = 0x202F \<or>
      c = 0x205F \<or> c = 0x3000 \<or> c = 0xFEFF)"

definition trim :: "jsstring \<Rightarrow> jsstring" where
  "trim s = rev (dropWhile is_js_space (rev (dropWhile is_js_space s)))"

subsection \<open>TextDecoder: the streaming UTF-8 decoder\<close>

text \<open>
  \<open>new TextDecoder()\<close> decodes UTF-8, replaces malformed input by U+FFFD and drops a byte
  order mark at the start of the stream. With \<open>{stream: true}\<close> the state of the decoder
  outlives the call, so a code point cut by a chunk boundary is completed by the next
  chunk. The state is that of the decoder of the Encoding Standard.
\<close>

record decoder =
  code_point :: nat
  bytes_seen :: nat
  bytes_needed :: nat
  lower_boundary :: nat
  upper_boundary :: nat
  bom_seen :: bool

definition new_TextDecoder :: decoder where
  "new_TextDecoder =
     \<lparr>code_point = 0, bytes_seen = 0, bytes_needed = 0,
      lower_boundary = 0x80, upper_boundary = 0xBF, bom_seen = False\<rparr>"

text \<open>A byte read while no code point is pending.\<close>

definition utf8_lead :: "decoder \<Rightarrow> nat \<Rightarrow> decoder \<times> nat list" where
  "utf8_lead d b =
     (if b \<le> 0x7F then (d, [b])
      else if 0xC2 \<le> b \<and> b \<le> 0xDF then
        (d\<lparr>bytes_needed := 1, code_point := b mod 0x20\<rparr>, [])
      else if 0xE0 \<le> b \<and> b \<le> 0xEF then
        (d\<lparr>lower_boundary := (if b = 0xE0 then 0xA0 else lower_boundary d),
           upper_boundary := (if b = 0xED then 0x9F else upper_boundary d),
           bytes_needed := 2, code_point := b mod 0x10\<rparr>, [])
      else if 0xF0 \<le> b \<and> b \<le> 0xF4 then
        (d\<lparr>lower_boundary := (if b = 0xF0 then 0x90 else lower_boundary d),
           upper_boundary := (if b = 0xF4 then 0x8F else upper_boundary d),
           bytes_needed := 3, code_point := b mod 0x08\<rparr>, [])
      else (d, [0xFFFD]))"

text \<open>
  One byte. A byte that cannot continue the pending code point ends it with U+FFFD and is
  then read again as a first byte.
\<close>

definition utf8_byte :: "decoder \<Rightarrow> nat \<Rightarrow> decoder \<times> nat list" where
  "utf8_byte d b =
     (if bytes_needed d = 0 then utf8_lead d b
      else if b < lower_boundary d \<or> upper_boundary d < b then
        (case utf8_lead
                (d\<lparr>code_point := 0, bytes_needed := 0, bytes_seen := 0,
                   lower_boundary := 0x80, upper_boundary := 0xBF\<rparr>) b of
           (d', out) \<Rightarrow> (d', 0xFFFD # out))
      else
        (let cp = code_point d * 0x40 + b mod 0x40;
             seen = bytes_seen d + 1;
             d' = d\<lparr>lower_boundary := 0x80, upper_boundary := 0xBF\<rparr>
         in if seen \<noteq> bytes_needed d then (d'\<lparr>code_point := cp, bytes_seen := seen\<rparr>, [])
            else (d'\<lparr>code_point := 0, bytes_needed := 0, bytes_seen := 0\<rparr>, [cp])))"

text \<open>The first code point of the stream is dropped when it is the byte order mark.\<close>

fun emit :: "decoder \<Rightarrow> nat list \<Rightarrow> decoder \<times> nat list" where
  "emit d [] = (d, [])"
| "emit d (cp # cps) =
     (if bom_seen d then (d, cp # cps)
      else (case emit (d\<lparr>bom_seen := True\<rparr>) cps of
              (d', out) \<Rightarrow> (d', if cp = 0xFEFF then out else cp # out)))"

text \<open>A code point as UTF-16 code units.\<close>

definition utf16 :: "nat \<Rightarrow> jsstring" where
  "utf16 cp =
     (if cp < 0x10000 then [of_nat cp]
      else [of_nat (0xD800 + (cp - 0x10000) div 0x400),
            of_nat (0xDC00 + (cp - 0x10000) mod 0x400)])"

text \<open>\<open>decoder.decode(value, {stream: true})\<close>: the new state and the text of the chunk.\<close>

fun decode_stream :: "decoder \<Rightarrow> byte list \<Rightarrow> decoder \<times> jsstring" where
  "decode_stream d [] = (d, [])"
| "decode_stream d (b # bs) =
     (case utf8_byte d (unat b) of
        (d1, cps) \<Rightarrow>
          (case emit d1 cps of
             (d2, out) \<Rightarrow>
               (case decode_stream d2 bs of
                  (d3, rest) \<Rightarrow> (d3, concat (map utf16 out) @ rest))))"

subsection \<open>JSON.parse\<close>

text \<open>
  A value as \<open>JSON.parse\<close> builds it. A number keeps the literal that denotes it: the
  double it is rounded to is not modelled. An object is the list of its properties, each
  name once.
\<close>

datatype json =
    JNull
  | JBool bool
  | JNum jsstring
  | JStr jsstring
  | JArr "json list"
  | JObj "(jsstring \<times> json) list"

datatype token =
    TLBrace | TRBrace | TLBracket | TRBracket | TColon | TComma
  | TStr jsstring | TNum jsstring | TLit json

definition is_json_ws :: "cunit \<Rightarrow> bool" where
  "is_json_ws c = (c = 0x20 \<or> c = 0x09 \<or> c = 0x0A \<or> c = 0x0D)"

definition is_digit :: "cunit \<Rightarrow> bool" where
  "is_digit c = (0x30 \<le> c \<and> c \<le> 0x39)"

definition hex_value :: "cunit \<Rightarrow> cunit option" where
  "hex_value c =
     (if 0x30 \<le> c \<and> c \<le> 0x39 then Some (c - 0x30)
      else if 0x41 \<le> c \<and> c \<le> 0x46 then Some (c - 0x41 + 10)
      else if 0x61 \<le> c \<and> c \<le> 0x66 then Some (c - 0x61 + 10)
      else None)"

definition hex4 :: "cunit \<Rightarrow> cunit \<Rightarrow> cunit \<Rightarrow> cunit \<Rightarrow> cunit option" where
  "hex4 a b c d =
     (case (hex_value a, hex_value b, hex_value c, hex_value d) of
        (Some x, Some y, Some z, Some w) \<Rightarrow> Some (((x * 16 + y) * 16 + z) * 16 + w)
      | _ \<Rightarrow> None)"

text \<open>The character a one-letter escape stands for: \<open>\" \\ \/ \b \f \n \r \t\<close>.\<close>

definition unescape :: "cunit \<Rightarrow> cunit option" where
  "unescape e =
     (if e = 0x22 then Some 0x22
      else if e = 0x5C then Some 0x5C
      else if e = 0x2F then Some 0x2F
      else if e = 0x62 then Some 0x08
      else if e = 0x66 then Some 0x0C
      else if e = 0x6E then Some 0x0A
      else if e = 0x72 then Some 0x0D
      else if e = 0x74 then Some 0x09
      else None)"

text \<open>
  The rest of a string literal, after its opening quote: the string it denotes and the
  input after the closing quote. A control character below U+0020 is not allowed raw.
\<close>

fun lex_string :: "jsstring \<Rightarrow> (jsstring \<times> jsstring) option" where
  "lex_string [] = None"
| "lex_string (c # cs) =
     (if c = 0x22 then Some ([], cs)
      else if c = 0x5C then
        (case cs of
           [] \<Rightarrow> None
         | e # cs' \<Rightarrow>
             (if e = 0x75 then
                (case cs' of
                   h1 # h2 # h3 # h4 # cs'' \<Rightarrow>
                     (case hex4 h1 h2 h3 h4 of
                        None \<Rightarrow> None
                      | Some u \<Rightarrow>
                          (case lex_string cs'' of
                             None \<Rightarrow> None
                           | Some (s, r) \<Rightarrow> Some (u # s, r)))
                 | _ \<Rightarrow> None)
              else
                (case unescape e of
                   None \<Rightarrow> None
                 | Some u \<Rightarrow>
                     (case lex_string cs' of
                        None \<Rightarrow> None
                      | Some (s, r) \<Rightarrow> Some (u # s, r)))))
      else if c < 0x20 then None
      else (case lex_string cs of None \<Rightarrow> None | Some (s, r) \<Rightarrow> Some (c # s, r)))"

text \<open>
  A number literal at the head of the input: an optional minus, an integer part without
  a leading zero, an optional fraction and an optional exponent, each with at least one
  digit. The result is the literal and the input after it.
\<close>

definition lex_digits :: "jsstring \<Rightarrow> (jsstring \<times> jsstring) option" where
  "lex_digits s =
     (if takeWhile is_digit s = [] then None
      else Some (takeWhile is_digit s, dropWhile is_digit s))"

definition lex_int :: "jsstring \<Rightarrow> (jsstring \<times> jsstring) option" where
  "lex_int s =
     (case s of
        [] \<Rightarrow> None
      | c # cs \<Rightarrow> (if c = 0x30 then Some ([c], cs) else lex_digits s))"

definition lex_frac :: "jsstring \<Rightarrow> (jsstring \<times> jsstring) option" where
  "lex_frac s =
     (case s of
        [] \<Rightarrow> Some ([], s)
      | c # cs \<Rightarrow>
          (if c = 0x2E then
             (case lex_digits cs of None \<Rightarrow> None | Some (ds, r) \<Rightarrow> Some (c # ds, r))
           else Some ([], s)))"

definition lex_sign :: "jsstring \<Rightarrow> jsstring \<times> jsstring" where
  "lex_sign s =
     (case s of
        [] \<Rightarrow> ([], s)
      | c # cs \<Rightarrow> (if c = 0x2B \<or> c = 0x2D then ([c], cs) else ([], s)))"

definition lex_exp :: "jsstring \<Rightarrow> (jsstring \<times> jsstring) option" where
  "lex_exp s =
     (case s of
        [] \<Rightarrow> Some ([], s)
      | c # cs \<Rightarrow>
          (if c = 0x65 \<or> c = 0x45 then
             (case lex_sign cs of
                (sg, r) \<Rightarrow>
                  (case lex_digits r of
                     None \<Rightarrow> None
                   | Some (ds, r') \<Rightarrow> Some (c # sg @ ds, r')))
           else Some ([], s)))"

definition lex_number :: "jsstring \<Rightarrow> (jsstring \<times> jsstring) option" where
  "lex_number s =
     (case (case s of [] \<Rightarrow> ([], s) | c # cs \<Rightarrow> (if c = 0x2D then ([c], cs) else ([], s))) of
        (neg, r0) \<Rightarrow>
          (case lex_int r0 of
             None \<Rightarrow> None
           | Some (ip, r1) \<Rightarrow>
               (case lex_frac r1 of
                  None \<Rightarrow> None
                | Some (fp, r2) \<Rightarrow>
                    (case lex_exp r2 of
                       None \<Rightarrow> None
                     | Some (ep, r3) \<Rightarrow> Some (neg @ ip @ fp @ ep, r3)))))"

lemma lex_string_shorter: "lex_string cs = Some (s, r) \<Longrightarrow> length r < length cs"
  by (induction cs arbitrary: s r rule: lex_string.induct)
     (fastforce split: if_splits list.splits option.splits)+

lemma lex_digits_shorter: "lex_digits s = Some (ds, r) \<Longrightarrow> length r < length s"
proof -
  assume a: "lex_digits s = Some (ds, r)"
  then have "takeWhile is_digit s \<noteq> []" and "r = dropWhile is_digit s"
    by (auto simp: lex_digits_def split: if_splits)
  moreover have "length (takeWhile is_digit s) + length (dropWhile is_digit s) = length s"
    by (metis length_append takeWhile_dropWhile_id)
  ultimately show ?thesis by (cases "takeWhile is_digit s") auto
qed

lemma lex_int_shorter: "lex_int s = Some (ip, r) \<Longrightarrow> length r < length s"
  by (auto simp: lex_int_def split: list.splits if_splits dest: lex_digits_shorter)

lemma lex_frac_shorter: "lex_frac s = Some (fp, r) \<Longrightarrow> length r \<le> length s"
  by (auto simp: lex_frac_def split: list.splits if_splits option.splits
           dest!: lex_digits_shorter)

lemma lex_sign_shorter: "lex_sign s = (sg, r) \<Longrightarrow> length r \<le> length s"
  by (auto simp: lex_sign_def split: list.splits if_splits)

lemma lex_exp_shorter: "lex_exp s = Some (ep, r) \<Longrightarrow> length r \<le> length s"
  by (auto simp: lex_exp_def split: list.splits if_splits option.splits prod.splits
           dest!: lex_digits_shorter lex_sign_shorter)

lemma lex_number_shorter: "lex_number s = Some (n, r) \<Longrightarrow> length r < length s"
  by (auto simp: lex_number_def split: list.splits if_splits option.splits
           dest!: lex_int_shorter lex_frac_shorter lex_exp_shorter)

text \<open>The tokens of a text, \<open>None\<close> when a part of it is no token.\<close>

function lex :: "jsstring \<Rightarrow> token list option" where
  "lex [] = Some []"
| "lex (c # cs) =
     (if is_json_ws c then lex cs
      else if c = 0x7B then map_option (Cons TLBrace) (lex cs)
      else if c = 0x7D then map_option (Cons TRBrace) (lex cs)
      else if c = 0x5B then map_option (Cons TLBracket) (lex cs)
      else if c = 0x5D then map_option (Cons TRBracket) (lex cs)
      else if c = 0x3A then map_option (Cons TColon) (lex cs)
      else if c = 0x2C then map_option (Cons TComma) (lex cs)
      else if c = 0x22 then
        (case lex_string cs of
           None \<Rightarrow> None
         | Some (s, r) \<Rightarrow> map_option (Cons (TStr s)) (lex r))
      else if c = 0x2D \<or> is_digit c then
        (case lex_number (c # cs) of
           None \<Rightarrow> None
         | Some (n, r) \<Rightarrow> map_option (Cons (TNum n)) (lex r))
      else if starts_with (c # cs) (js ''true'') then
        map_option (Cons (TLit (JBool True))) (lex (drop 3 cs))
      else if starts_with (c # cs) (js ''false'') then
        map_option (Cons (TLit (JBool False))) (lex (drop 4 cs))
      else if starts_with (c # cs) (js ''null'') then
        map_option (Cons (TLit JNull)) (lex (drop 3 cs))
      else None)"
  by pat_completeness auto
termination
  by (relation "measure length")
     (auto dest: lex_string_shorter lex_number_shorter)

text \<open>
  The grammar, read by a machine with a stack of the arrays and objects that are open.
  An object that is open holds the name that waits for its value.
\<close>

datatype frame =
    FArr "json list"
  | FObj "(jsstring \<times> json) list" "jsstring option"

datatype mode =
    MValue
  | MValueOrClose
  | MKeyOrClose
  | MKey
  | MColon
  | MAfter
  | MDone json

text \<open>A name that occurs again replaces the value of its first occurrence.\<close>

fun obj_put :: "(jsstring \<times> json) list \<Rightarrow> jsstring \<Rightarrow> json \<Rightarrow> (jsstring \<times> json) list" where
  "obj_put [] k v = [(k, v)]"
| "obj_put ((k', v') # kvs) k v =
     (if k' = k then (k, v) # kvs else (k', v') # obj_put kvs k v)"

fun deliver :: "json \<Rightarrow> frame list \<Rightarrow> (frame list \<times> mode) option" where
  "deliver v [] = Some ([], MDone v)"
| "deliver v (FArr es # st) = Some (FArr (es @ [v]) # st, MAfter)"
| "deliver v (FObj kvs (Some k) # st) = Some (FObj (obj_put kvs k v) None # st, MAfter)"
| "deliver v (FObj kvs None # st) = None"

fun open_value :: "frame list \<Rightarrow> token \<Rightarrow> (frame list \<times> mode) option" where
  "open_value st (TStr s) = deliver (JStr s) st"
| "open_value st (TNum n) = deliver (JNum n) st"
| "open_value st (TLit v) = deliver v st"
| "open_value st TLBracket = Some (FArr [] # st, MValueOrClose)"
| "open_value st TLBrace = Some (FObj [] None # st, MKeyOrClose)"
| "open_value st _ = None"

fun close_frame :: "frame list \<Rightarrow> token \<Rightarrow> (frame list \<times> mode) option" where
  "close_frame (FArr es # st) TRBracket = deliver (JArr es) st"
| "close_frame (FObj kvs None # st) TRBrace = deliver (JObj kvs) st"
| "close_frame _ _ = None"

fun set_key :: "frame list \<Rightarrow> jsstring \<Rightarrow> (frame list \<times> mode) option" where
  "set_key (FObj kvs None # st) k = Some (FObj kvs (Some k) # st, MColon)"
| "set_key _ k = None"

fun parse_step :: "frame list \<times> mode \<Rightarrow> token \<Rightarrow> (frame list \<times> mode) option" where
  "parse_step (st, MValue) t = open_value st t"
| "parse_step (st, MValueOrClose) t =
     (if t = TRBracket then close_frame st t else open_value st t)"
| "parse_step (st, MKeyOrClose) t =
     (case t of TStr k \<Rightarrow> set_key st k | TRBrace \<Rightarrow> close_frame st t | _ \<Rightarrow> None)"
| "parse_step (st, MKey) t = (case t of TStr k \<Rightarrow> set_key st k | _ \<Rightarrow> None)"
| "parse_step (st, MColon) t = (if t = TColon then Some (st, MValue) else None)"
| "parse_step (st, MAfter) t =
     (case t of
        TComma \<Rightarrow>
          (case st of
             FArr es # _ \<Rightarrow> Some (st, MValue)
           | FObj kvs None # _ \<Rightarrow> Some (st, MKey)
           | _ \<Rightarrow> None)
      | TRBracket \<Rightarrow> close_frame st t
      | TRBrace \<Rightarrow> close_frame st t
      | _ \<Rightarrow> None)"
| "parse_step (st, MDone v) t = None"

fun parse_tokens :: "frame list \<times> mode \<Rightarrow> token list \<Rightarrow> (frame list \<times> mode) option" where
  "parse_tokens ps [] = Some ps"
| "parse_tokens ps (t # ts) =
     (case parse_step ps t of None \<Rightarrow> None | Some ps' \<Rightarrow> parse_tokens ps' ts)"

text \<open>\<open>JSON.parse(text)\<close>: \<open>None\<close> is the \<open>SyntaxError\<close> it throws.\<close>

definition JSON_parse :: "jsstring \<Rightarrow> json option" where
  "JSON_parse text =
     (case lex text of
        None \<Rightarrow> None
      | Some ts \<Rightarrow>
          (case parse_tokens ([], MValue) ts of
             Some ([], MDone v) \<Rightarrow> Some v
           | _ \<Rightarrow> None))"

section \<open>Stream Relay: the body of POST /api/chat/stream (\<^verbatim>\<open>worker/index.ts\<close>)\<close>

text \<open>
  \<open>obj.name\<close> on a parsed value: reading a property of \<open>null\<close> throws a \<open>TypeError\<close>,
  an object answers with its own property, and every other value has none of the names
  the worker reads (\<open>response\<close>, \<open>output_text\<close>, \<open>plan\<close>, \<open>message\<close>, \<open>goal\<close>), which is
  \<open>undefined\<close>, here \<open>None\<close>.
\<close>

definition get_prop :: "json \<Rightarrow> jsstring \<Rightarrow> exn + json option" where
  "get_prop v name =
     (case v of
        JNull \<Rightarrow> Inl TypeError
      | JObj kvs \<Rightarrow> Inr (map_of kvs name)
      | _ \<Rightarrow> Inr None)"

text \<open>
  The body of the loop over the lines of a frame: the text that a line adds to \<open>full\<close>,
  \<open>None\<close> when the line is passed over. The \<open>catch\<close> covers the \<open>SyntaxError\<close> of
  \<open>JSON.parse\<close> and the \<open>TypeError\<close> of \<open>obj.response\<close> on \<open>null\<close>.
\<close>

definition line_text :: "jsstring \<Rightarrow> jsstring option" where
  "line_text line =
     (let trimmed = trim line in
      if \<not> starts_with trimmed (js ''data:'') then None
      else
        (let payload = trim (drop 5 trimmed) in
         if payload = [] \<or> payload = js ''[DONE]'' then None
         else
           (case JSON_parse payload of
              None \<Rightarrow> None
            | Some obj \<Rightarrow>
                (case get_prop obj (js ''response'') of
                   Inl e \<Rightarrow> None
                 | Inr (Some (JStr s)) \<Rightarrow> Some s
                 | Inr _ \<Rightarrow> None))))"

definition scan_line :: "jsstring \<Rightarrow> jsstring \<Rightarrow> jsstring" where
  "scan_line line full = (case line_text line of None \<Rightarrow> full | Some s \<Rightarrow> full @ s)"

text \<open>\<open>for (const line of frame.split("\n")) ...\<close>\<close>

definition scan_frame :: "jsstring \<Rightarrow> jsstring \<Rightarrow> jsstring" where
  "scan_frame frame full = fold scan_line (split_on 0x0A frame) full"

definition frame_delimiter :: jsstring where
  "frame_delimiter = [0x0A, 0x0A]"

lemma index_of_bound:
  "index_of s needle = Some i \<Longrightarrow> needle \<noteq> [] \<Longrightarrow> i < length s"
  by (induction s arbitrary: i) (auto split: if_splits)

text \<open>
  \<open>while ((idx = buffer.indexOf("\n\n")) !== -1) ...\<close>: the frames that are complete
  leave the buffer, in order.
\<close>

function drain :: "jsstring \<Rightarrow> jsstring \<Rightarrow> jsstring \<times> jsstring" where
  "drain buffer full =
     (case index_of buffer frame_delimiter of
        None \<Rightarrow> (buffer, full)
      | Some idx \<Rightarrow> drain (drop (idx + 2) buffer) (scan_frame (take idx buffer) full))"
  by pat_completeness auto
termination
  by (relation "measure (\<lambda>(buffer, full). length buffer)")
     (auto simp: frame_delimiter_def dest!: index_of_bound)

declare drain.simps [simp del]

text \<open>The variables of the relay: the decoder, \<open>buffer\<close>, \<open>full\<close> and what was enqueued.\<close>

record relay_state =
  rs_decoder :: decoder
  rs_buffer :: jsstring
  rs_full :: jsstring
  rs_enqueued :: "byte list list"

definition relay_start :: relay_state where
  "relay_start =
     \<lparr>rs_decoder = new_TextDecoder, rs_buffer = [], rs_full = [], rs_enqueued = []\<rparr>"

text \<open>One turn of \<open>while (true)\<close> for a chunk that \<open>reader.read()\<close> delivered.\<close>

definition on_chunk :: "relay_state \<Rightarrow> byte list \<Rightarrow> relay_state" where
  "on_chunk s val =
     (case decode_stream (rs_decoder s) val of
        (d, chunkText) \<Rightarrow>
          (case drain (rs_buffer s @ chunkText) (rs_full s) of
             (buffer, full) \<Rightarrow>
               \<lparr>rs_decoder = d, rs_buffer = buffer, rs_full = full,
                rs_enqueued = rs_enqueued s @ [val]\<rparr>))"

definition read_loop :: "relay_state \<Rightarrow> byte list list \<Rightarrow> relay_state" where
  "read_loop s chunks = foldl on_chunk s chunks"

text \<open>
  What the upstream does: the chunks it delivers, and then either the end of the input
  or an exception in the next turn of the loop (\<open>reader.read()\<close> rejects, or
  \<open>controller.enqueue\<close> throws before the chunk is used). The contract of the Inference
  Gateway is that the stream ends; an upstream that never settles is not modelled.
\<close>

datatype ending = EndOfInput | LoopRaises exn

record upstream =
  up_chunks :: "byte list list"
  up_ending :: ending

text \<open>
  What an execution of \<open>start(controller)\<close> did: the chunks enqueued, the bodies of the
  append requests sent to the stub, how often \<open>controller.close()\<close> ran, and the
  exception the promise of \<open>start\<close> rejects with, if any.
\<close>

record relay_result =
  forwarded :: "byte list list"
  append_bodies :: "json list"
  close_calls :: nat
  start_rejects :: "exn option"

definition assistant_message :: "jsstring \<Rightarrow> json" where
  "assistant_message full =
     JObj [(js ''role'', JStr (js ''assistant'')), (js ''content'', JStr full)]"

text \<open>
  The \<open>try ... finally\<close>. An exception of the awaited \<open>stub.fetch\<close> leaves the
  \<open>finally\<close> block at once, before \<open>controller.close()\<close>, and replaces the exception
  of the loop.
\<close>

definition relay ::
  "(json do_request \<Rightarrow> 'w \<Rightarrow> (exn + json do_response) \<times> 'w) \<Rightarrow> upstream \<Rightarrow> 'w \<Rightarrow>
     relay_result \<times> 'w" where
  "relay stub up w =
     (let s = read_loop relay_start (up_chunks up);
          raised = (case up_ending up of EndOfInput \<Rightarrow> None | LoopRaises e \<Rightarrow> Some e);
          full = rs_full s
      in if trim full \<noteq> [] then
           (case stub (append_req (assistant_message full)) w of
              (Inl e, w') \<Rightarrow>
                (\<lparr>forwarded = rs_enqueued s, append_bodies = [assistant_message full],
                  close_calls = 0, start_rejects = Some e\<rparr>, w')
            | (Inr ok, w') \<Rightarrow>
                (\<lparr>forwarded = rs_enqueued s, append_bodies = [assistant_message full],
                  close_calls = 1, start_rejects = raised\<rparr>, w'))
         else
           (\<lparr>forwarded = rs_enqueued s, append_bodies = [],
             close_calls = 1, start_rejects = raised\<rparr>, w))"

text \<open>
  The complete frames of a text, as the repeated search for the delimiter cuts them, and
  the text their lines add up to.
\<close>

function frames_of :: "jsstring \<Rightarrow> jsstring list" where
  "frames_of text =
     (case index_of text frame_delimiter of
        None \<Rightarrow> []
      | Some idx \<Rightarrow> take idx text # frames_of (drop (idx + 2) text))"
  by pat_completeness auto
termination
  by (relation "measure length")
     (auto simp: frame_delimiter_def dest!: index_of_bound)

declare frames_of.simps [simp del]

definition lines_of :: "jsstring \<Rightarrow> jsstring list" where
  "lines_of text = concat (map (split_on 0x0A) (frames_of text))"

text \<open>The text a decoder has delivered when these bytes have passed through it.\<close>

definition decoded_text :: "byte list \<Rightarrow> jsstring" where
  "decoded_text bytes = snd (decode_stream new_TextDecoder bytes)"

definition ascii :: "string \<Rightarrow> byte list" where
  "ascii s = map of_char s"

text \<open>The accumulator \<open>full\<close> when the loop is left.\<close>

definition transcript :: "upstream \<Rightarrow> jsstring" where
  "transcript up = rs_full (read_loop relay_start (up_chunks up))"

text \<open>The three frames of the example of the specification, as bytes.\<close>

definition frame_Hel :: "byte list" where
  "frame_Hel = ascii (''data: {\"response\":\"Hel\"}'' @ [CHR 0x0A, CHR 0x0A])"

definition frame_lo :: "byte list" where
  "frame_lo = ascii (''data: {\"response\":\"lo\"}'' @ [CHR 0x0A, CHR 0x0A])"

definition frame_DONE :: "byte list" where
  "frame_DONE = ascii (''data: [DONE]'' @ [CHR 0x0A, CHR 0x0A])"

text \<open>Further upstream frames: a short answer, an answer of one space, and a comment.\<close>

definition frame_Hi :: "byte list" where
  "frame_Hi = ascii (''data: {\"response\":\"Hi\"}'' @ [CHR 0x0A, CHR 0x0A])"

definition frame_space :: "byte list" where
  "frame_space = ascii (''data: {\"response\":\" \"}'' @ [CHR 0x0A, CHR 0x0A])"

definition frame_ping :: "byte list" where
  "frame_ping = ascii ('': ping'' @ [CHR 0x0A, CHR 0x0A])"

text \<open>A stub whose \<open>fetch\<close> rejects: the object cannot be reached.\<close>

definition broken_stub :: "json do_request \<Rightarrow> unit \<Rightarrow> (exn + json do_response) \<times> unit" where
  "broken_stub request w = (Inl StoreError, w)"

section \<open>The Worker: fetch (\<^verbatim>\<open>worker/index.ts\<close>)\<close>

text \<open>
  The request as the handler reads it: the method, \<open>url.pathname\<close>, \<open>url.searchParams\<close>
  and the text of the body, which \<open>request.json()\<close> gives to \<open>JSON.parse\<close>.
\<close>

record request =
  req_method :: string
  req_pathname :: string
  req_searchParams :: "(jsstring \<times> jsstring) list"
  req_body :: jsstring

text \<open>
  A response. The body of a stream is given by the chunks it delivers and by the exception
  it ends with, \<open>None\<close> when it is closed.
\<close>

datatype body = NoBody | TextBody string | JsonBody json | StreamBody "byte list list" "exn option"

record response =
  status :: nat
  headers :: "(string \<times> string) list"
  body :: body

definition Response_json :: "json \<Rightarrow> response" where
  "Response_json v =
     \<lparr>status = 200, headers = [(''content-type'', ''application/json'')], body = JsonBody v\<rparr>"

text \<open>
  The functions of the platform whose result depends on the double a number literal
  denotes, or on the order in which an object lists its properties, are parameters.
\<close>

record platform =
  Number_to_boolean :: "jsstring \<Rightarrow> bool"
  Number_to_string :: "jsstring \<Rightarrow> jsstring"
  JSON_stringify :: "json \<Rightarrow> jsstring"

text \<open>
  The bindings of \<open>Env\<close> and \<open>crypto.randomUUID\<close>, over a state \<open>'w\<close> of the world outside
  the worker. \<open>MEMORY\<close> is \<open>fetch\<close> on the stub of an identity; a call that rejects still
  returns a state. The inference is a function of its input: with \<open>stream: true\<close> it
  answers with an upstream, else with a value (\<open>None\<close> for \<open>undefined\<close>).
\<close>

record ai_input =
  ai_model :: string
  ai_messages :: "json list"
  ai_stream :: bool
  ai_max_tokens :: nat
  ai_temperature :: string

record wf_instance =
  instance_id :: jsstring
  instance_status :: "exn + json"

record 'w env =
  MEMORY :: "jsstring \<Rightarrow> json do_request \<Rightarrow> 'w \<Rightarrow> (exn + json do_response) \<times> 'w"
  AI_run :: "ai_input \<Rightarrow> exn + json option"
  AI_run_stream :: "ai_input \<Rightarrow> exn + upstream"
  TASK_WORKFLOW_create :: "jsstring \<Rightarrow> json option \<Rightarrow> 'w \<Rightarrow> (exn + wf_instance) \<times> 'w"
  TASK_WORKFLOW_get :: "jsstring \<Rightarrow> 'w \<Rightarrow> (exn + wf_instance) \<times> 'w"
  randomUUID :: "'w \<Rightarrow> jsstring \<times> 'w"

text \<open>\<open>await\<close>: go on with the value of a call, or stop with its exception.\<close>

definition await ::
  "(exn + 'a) \<times> 'w \<Rightarrow> ('a \<Rightarrow> 'w \<Rightarrow> (exn + 'b) \<times> 'w) \<Rightarrow> (exn + 'b) \<times> 'w" where
  "await m f = (case m of (Inl e, w) \<Rightarrow> (Inl e, w) | (Inr x, w) \<Rightarrow> f x w)"

definition request_json :: "request \<Rightarrow> exn + json" where
  "request_json request =
     (case JSON_parse (req_body request) of None \<Rightarrow> Inl SyntaxError | Some v \<Rightarrow> Inr v)"

text \<open>
  An object literal on its way through \<open>JSON.stringify\<close>: a property whose value is
  \<open>undefined\<close> is left out. Numbers are kept as written.
\<close>

fun js_props :: "(string \<times> json option) list \<Rightarrow> (jsstring \<times> json) list" where
  "js_props [] = []"
| "js_props ((k, None) # ps) = js_props ps"
| "js_props ((k, Some v) # ps) = (js k, v) # js_props ps"

definition js_object :: "(string \<times> json option) list \<Rightarrow> json" where
  "js_object ps = JObj (js_props ps)"

text \<open>\<open>const { history } = await memRes.json()\<close>, spread into the messages.\<close>

fun history_of :: "json do_response \<Rightarrow> exn + json list" where
  "history_of (HistoryJson h) = Inr h"
| "history_of NotFound404 = Inl SyntaxError"
| "history_of (AppendJson ok n) = Inl TypeError"
| "history_of (OkJson ok) = Inl TypeError"

text \<open>\<open>r?.name\<close> and \<open>a ?? b\<close>.\<close>

definition nullish :: "json option \<Rightarrow> bool" where
  "nullish a = (a = None \<or> a = Some JNull)"

definition opt_prop :: "json option \<Rightarrow> jsstring \<Rightarrow> json option" where
  "opt_prop r name =
     (case r of
        None \<Rightarrow> None
      | Some v \<Rightarrow> (case get_prop v name of Inl e \<Rightarrow> None | Inr x \<Rightarrow> x))"

definition coalesce :: "json option \<Rightarrow> json option \<Rightarrow> json option" where
  "coalesce a b = (if nullish a then b else a)"

definition system_message :: json where
  "system_message =
     JObj [(js ''role'', JStr (js ''system'')),
           (js ''content'',
            JStr (js (''You are a helpful assistant. Use chat history for context. '' @
                      ''Be concise unless asked otherwise.'')))]"

definition chat_model :: string where
  "chat_model = ''@cf/meta/llama-3.3-70b-instruct-fp8-fast''"

text \<open>POST /api/chat\<close>

definition handle_chat ::
  "platform \<Rightarrow> 'w env \<Rightarrow> jsstring \<Rightarrow> request \<Rightarrow> 'w \<Rightarrow> (exn + response) \<times> 'w" where
  "handle_chat pf env userId request w0 =
     await (request_json request, w0) (\<lambda>parsed w.
     await (get_prop parsed (js ''message''), w) (\<lambda>message w.
     await (MEMORY env userId
              (append_req (js_object [(''role'', Some (JStr (js ''user''))),
                                      (''content'', message)])) w) (\<lambda>appended w.
     await (MEMORY env userId get_req w) (\<lambda>memRes w.
     await (history_of memRes, w) (\<lambda>history w.
     await (AI_run env
              \<lparr>ai_model = chat_model, ai_messages = system_message # history,
               ai_stream = False, ai_max_tokens = 300, ai_temperature = ''0.4''\<rparr>, w) (\<lambda>result w.
       (let reply =
              coalesce (opt_prop result (js ''response''))
                (coalesce (opt_prop result (js ''output_text''))
                   (map_option (\<lambda>v. JStr (JSON_stringify pf v)) result))
        in await (MEMORY env userId
                    (append_req (js_object [(''role'', Some (JStr (js ''assistant''))),
                                            (''content'', reply)])) w) (\<lambda>stored w.
             (Inr (Response_json (js_object [(''reply'', reply)])), w)))))))))"

text \<open>POST /api/task\<close>

definition handle_task_start :: "'w env \<Rightarrow> request \<Rightarrow> 'w \<Rightarrow> (exn + response) \<times> 'w" where
  "handle_task_start env request w0 =
     await (request_json request, w0) (\<lambda>parsed w.
     await (get_prop parsed (js ''goal''), w) (\<lambda>goal w.
       (case randomUUID env w of
          (newId, w1) \<Rightarrow>
            await (TASK_WORKFLOW_create env newId goal w1) (\<lambda>inst w.
            await (instance_status inst, w) (\<lambda>st w.
              (Inr (Response_json (js_object [(''id'', Some (JStr (instance_id inst))),
                                              (''status'', Some st)])), w))))))"

text \<open>GET /api/task: \<open>!instanceId\<close> holds for \<open>null\<close> and for the empty string.\<close>

definition handle_task_status :: "'w env \<Rightarrow> request \<Rightarrow> 'w \<Rightarrow> (exn + response) \<times> 'w" where
  "handle_task_status env request w0 =
     (case map_of (req_searchParams request) (js ''instanceId'') of
        None \<Rightarrow>
          (Inr \<lparr>status = 400, headers = [(''content-type'', ''text/plain;charset=UTF-8'')],
                body = TextBody ''Missing instanceId''\<rparr>, w0)
      | Some instanceId \<Rightarrow>
          (if instanceId = [] then
             (Inr \<lparr>status = 400, headers = [(''content-type'', ''text/plain;charset=UTF-8'')],
                   body = TextBody ''Missing instanceId''\<rparr>, w0)
           else
             await (TASK_WORKFLOW_get env instanceId w0) (\<lambda>inst w.
             await (instance_status inst, w) (\<lambda>st w.
               (Inr (Response_json (js_object [(''status'', Some st)])), w)))))"

text \<open>POST /api/clear\<close>

definition handle_clear :: "'w env \<Rightarrow> jsstring \<Rightarrow> 'w \<Rightarrow> (exn + response) \<times> 'w" where
  "handle_clear env userId w0 =
     await (MEMORY env userId clear_req w0) (\<lambda>cleared w.
       (Inr (Response_json (js_object [(''ok'', Some (JBool True))])), w))"

text \<open>
  POST /api/chat/stream. The response is returned at once; its body is what the relay
  enqueues, and the state returned is the one after the stream has ended.
\<close>

definition handle_chat_stream ::
  "'w env \<Rightarrow> jsstring \<Rightarrow> request \<Rightarrow> 'w \<Rightarrow> (exn + response) \<times> 'w" where
  "handle_chat_stream env userId request w0 =
     await (request_json request, w0) (\<lambda>parsed w.
     await (get_prop parsed (js ''message''), w) (\<lambda>message w.
     await (MEMORY env userId
              (append_req (js_object [(''role'', Some (JStr (js ''user''))),
                                      (''content'', message)])) w) (\<lambda>appended w.
     await (MEMORY env userId get_req w) (\<lambda>memRes w.
     await (history_of memRes, w) (\<lambda>history w.
     await (AI_run_stream env
              \<lparr>ai_model = chat_model, ai_messages = system_message # history,
               ai_stream = True, ai_max_tokens = 400, ai_temperature = ''0.4''\<rparr>, w) (\<lambda>aiStream w.
       (case relay (MEMORY env userId) aiStream w of
          (r, w') \<Rightarrow>
            (Inr \<lparr>status = 200,
                  headers = [(''content-type'', ''text/event-stream''),
                             (''cache-control'', ''no-cache''),
                             (''connection'', ''keep-alive'')],
                  body = StreamBody (forwarded r)
                           (if close_calls r = 0 then start_rejects r else None)\<rparr>, w'))))))))"

text \<open>\<open>url.searchParams.get("user") ?? "demo"\<close>\<close>

definition select_user :: "request \<Rightarrow> jsstring" where
  "select_user request =
     (case map_of (req_searchParams request) (js ''user'') of
        None \<Rightarrow> js ''demo''
      | Some u \<Rightarrow> u)"

definition fetch :: "platform \<Rightarrow> 'w env \<Rightarrow> request \<Rightarrow> 'w \<Rightarrow> (exn + response) \<times> 'w" where
  "fetch pf env request w =
     (if \<not> starts_with (req_pathname request) ''/api/'' then
        (Inr \<lparr>status = 404, headers = [], body = NoBody\<rparr>, w)
      else
        (let userId = select_user request in
         if req_method request = ''POST'' \<and> req_pathname request = ''/api/chat'' then
           handle_chat pf env userId request w
         else if req_method request = ''POST'' \<and> req_pathname request = ''/api/task'' then
           handle_task_start env request w
         else if req_method request = ''GET'' \<and> req_pathname request = ''/api/task'' then
           handle_task_status env request w
         else if req_method request = ''POST'' \<and> req_pathname request = ''/api/clear'' then
           handle_clear env userId w
         else if req_method request = ''POST'' \<and> req_pathname request = ''/api/chat/stream'' then
           handle_chat_stream env userId request w
         else (Inr (Response_json (js_object [(''name'', Some (JStr (js ''Cloudflare'')))])), w)))"

section \<open>The task workflow (\<^verbatim>\<open>worker/task_workflow.ts\<close>)\<close>

text \<open>\<open>safeJsonParse\<close>: the parsed value, \<open>null\<close> when \<open>JSON.parse\<close> throws.\<close>

definition safeJsonParse :: "jsstring \<Rightarrow> json" where
  "safeJsonParse text = (case JSON_parse text of None \<Rightarrow> JNull | Some v \<Rightarrow> v)"

text \<open>What \<open>obj && ...\<close> tests: \<open>null\<close>, \<open>false\<close>, zero and the empty string are falsy.\<close>

fun truthy :: "platform \<Rightarrow> json \<Rightarrow> bool" where
  "truthy pf JNull = False"
| "truthy pf (JBool b) = b"
| "truthy pf (JNum n) = Number_to_boolean pf n"
| "truthy pf (JStr s) = (s \<noteq> [])"
| "truthy pf (JArr xs) = True"
| "truthy pf (JObj kvs) = True"

text \<open>\<open>parts.join(",")\<close>\<close>

fun join_comma :: "jsstring list \<Rightarrow> jsstring" where
  "join_comma [] = []"
| "join_comma [p] = p"
| "join_comma (p # q # ps) = p @ js '','' @ join_comma (q # ps)"

text \<open>The results of a list of calls, or the first exception among them.\<close>

fun all_results :: "(exn + 'a) list \<Rightarrow> exn + 'a list" where
  "all_results [] = Inr []"
| "all_results (Inl e # rs) = Inl e"
| "all_results (Inr x # rs) = (case all_results rs of Inl e \<Rightarrow> Inl e | Inr xs \<Rightarrow> Inr (x # xs))"

text \<open>
  \<open>String(v)\<close> for a parsed value. An array is the join of its elements, where \<open>null\<close>
  is the empty string. An object is converted by its \<open>toString\<close>: a parsed object that
  has a property of that name hides \<open>Object.prototype.toString\<close> behind a value that
  cannot be called, \<open>valueOf\<close> gives no primitive either, and the conversion throws a
  \<open>TypeError\<close>; every other parsed object is \<open>"[object Object]"\<close>.
\<close>

fun js_String :: "platform \<Rightarrow> json \<Rightarrow> exn + jsstring" where
  "js_String pf JNull = Inr (js ''null'')"
| "js_String pf (JBool b) = Inr (if b then js ''true'' else js ''false'')"
| "js_String pf (JNum n) = Inr (Number_to_string pf n)"
| "js_String pf (JStr s) = Inr s"
| "js_String pf (JArr xs) =
     (case all_results (map (\<lambda>x. if x = JNull then Inr [] else js_String pf x) xs) of
        Inl e \<Rightarrow> Inl e
      | Inr parts \<Rightarrow> Inr (join_comma parts))"
| "js_String pf (JObj kvs) =
     (case map_of kvs (js ''toString'') of
        None \<Rightarrow> Inr (js ''[object Object]'')
      | Some v \<Rightarrow> Inl TypeError)"

text \<open>\<open>String(r?.response ?? r?.output_text ?? "")\<close>\<close>

definition ai_text :: "platform \<Rightarrow> json option \<Rightarrow> exn + jsstring" where
  "ai_text pf r =
     (case coalesce (opt_prop r (js ''response''))
             (coalesce (opt_prop r (js ''output_text'')) (Some (JStr []))) of
        None \<Rightarrow> Inr (js ''undefined'')
      | Some v \<Rightarrow> js_String pf v)"

definition fallback_plan :: "jsstring list" where
  "fallback_plan = [js ''Clarify goal'', js ''Do the main work'', js ''Summarize output'']"

text \<open>
  The plan step, from the text of the model on. \<open>obj.plan.map((s) => String(s))\<close>
  converts every item before \<open>slice(0, 3)\<close> cuts the list, and nothing catches the
  exception of a conversion.
\<close>

definition plan_of_text :: "platform \<Rightarrow> jsstring \<Rightarrow> exn + jsstring list" where
  "plan_of_text pf text =
     (let obj = safeJsonParse text in
      case (if truthy pf obj then
              (case get_prop obj (js ''plan'') of
                 Inr (Some (JArr plan)) \<Rightarrow>
                   (case all_results (map (js_String pf) plan) of
                      Inl e \<Rightarrow> Inl e
                    | Inr items \<Rightarrow> Inr (Some (take 3 items)))
               | _ \<Rightarrow> Inr None)
            else Inr None) of
        Inl e \<Rightarrow> Inl e
      | Inr steps \<Rightarrow> Inr (case steps of None \<Rightarrow> fallback_plan | Some s \<Rightarrow> s))"

definition plan_prompt :: json where
  "plan_prompt =
     JObj [(js ''role'', JStr (js ''system'')),
           (js ''content'',
            JStr (js (''You must respond with ONLY valid JSON of the form '' @
                      ''{\"plan\":[\"step 1\",\"step 2\",\"step 3\"]}. No extra keys. No prose.'')))]"

definition execute_prompt :: json where
  "execute_prompt =
     JObj [(js ''role'', JStr (js ''system'')),
           (js ''content'',
            JStr (js (''Return a concise final answer (max ~8 sentences). Do not repeat '' @
                      ''the plan. No 'final answer is' phrasing.'')))]"

definition user_message :: "json option \<Rightarrow> json" where
  "user_message content = js_object [(''role'', Some (JStr (js ''user''))), (''content'', content)]"

definition plan_step :: "platform \<Rightarrow> (ai_input \<Rightarrow> exn + json option) \<Rightarrow> json option \<Rightarrow> exn + jsstring list" where
  "plan_step pf AI goal =
     (case AI \<lparr>ai_model = chat_model, ai_messages = [plan_prompt, user_message goal],
               ai_stream = False, ai_max_tokens = 180, ai_temperature = ''0.1''\<rparr> of
        Inl e \<Rightarrow> Inl e
      | Inr r \<Rightarrow>
          (case ai_text pf r of
             Inl e \<Rightarrow> Inl e
           | Inr text \<Rightarrow> plan_of_text pf text))"

text \<open>
  The execute step. The goal in the template literal is converted as \<open>String(goal)\<close>
  is, before the inference is called, and the plan is listed by \<open>JSON.stringify\<close>.
\<close>

definition execute_step ::
  "platform \<Rightarrow> (ai_input \<Rightarrow> exn + json option) \<Rightarrow> json option \<Rightarrow> jsstring list \<Rightarrow> exn + jsstring" where
  "execute_step pf AI goal plan =
     (case (case goal of None \<Rightarrow> Inr (js ''undefined'') | Some g \<Rightarrow> js_String pf g) of
        Inl e \<Rightarrow> Inl e
      | Inr goalText \<Rightarrow>
          (case AI \<lparr>ai_model = chat_model,
                    ai_messages =
                      [execute_prompt,
                       user_message
                         (Some (JStr (js ''Goal: '' @ goalText @ [0x0A] @ js ''Plan: '' @
                                      JSON_stringify pf (JArr (map JStr plan)))))],
                    ai_stream = False, ai_max_tokens = 450, ai_temperature = ''0.2''\<rparr> of
             Inl e \<Rightarrow> Inl e
           | Inr r \<Rightarrow> ai_text pf r))"

text \<open>
  \<open>TaskWorkflow.run\<close> on an instance that has no step recorded: \<open>step.do\<close> runs each
  callback once, and an exception of a callback fails the run.
\<close>

definition TaskWorkflow_run ::
  "platform \<Rightarrow> (ai_input \<Rightarrow> exn + json option) \<Rightarrow> json option \<Rightarrow> exn + (jsstring list \<times> jsstring)" where
  "TaskWorkflow_run pf AI goal =
     (case plan_step pf AI goal of
        Inl e \<Rightarrow> Inl e
      | Inr plan \<Rightarrow>
          (case execute_step pf AI goal plan of
             Inl e \<Rightarrow> Inl e
           | Inr result \<Rightarrow> Inr (plan, result)))"

section \<open>A world to run the worker in\<close>

text \<open>
  The namespace of \<open>MemoryDO\<close> objects, and a registry that records the workflow
  instances created. The registry stands in for the Workflows platform, which is not code
  of the repository: it only makes the creation of an instance visible in the state.
\<close>

record world =
  memory :: "(jsstring, json) memory"
  jobs :: "(jsstring \<times> json option) list"

definition queued_instance :: "jsstring \<Rightarrow> wf_instance" where
  "queued_instance i =
     \<lparr>instance_id = i, instance_status = Inr (JObj [(js ''status'', JStr (js ''queued''))])\<rparr>"

definition world_env ::
  "(ai_input \<Rightarrow> exn + json option) \<Rightarrow> (ai_input \<Rightarrow> exn + upstream) \<Rightarrow> world env" where
  "world_env ai ai_s =
     \<lparr>MEMORY = (\<lambda>u r w. case stub_fetch u r (memory w) of (res, m) \<Rightarrow> (res, w\<lparr>memory := m\<rparr>)),
      AI_run = ai,
      AI_run_stream = ai_s,
      TASK_WORKFLOW_create =
        (\<lambda>newId goal w. (Inr (queued_instance newId), w\<lparr>jobs := jobs w @ [(newId, goal)]\<rparr>)),
      TASK_WORKFLOW_get =
        (\<lambda>i w. (case map_of (jobs w) i of
                    None \<Rightarrow> Inl UpstreamError
                  | Some goal \<Rightarrow> Inr (queued_instance i), w)),
      randomUUID = (\<lambda>w. (js ''job-'' @ replicate (length (jobs w)) 0x31, w))\<rparr>"

definition empty_world :: world where
  "empty_world = \<lparr>memory = (\<lambda>u. None), jobs = []\<rparr>"

text \<open>
  A response that rejects the request as the client's error. An exception that escapes
  the handler is answered by the runtime with a server error.
\<close>

definition is_client_error :: "exn + response \<Rightarrow> bool" where
  "is_client_error res =
     (case res of Inl e \<Rightarrow> False | Inr r \<Rightarrow> 400 \<le> status r \<and> status r < 500)"

text \<open>
  A platform to run examples on. It prints a number as it was written and takes it for
  zero when no digit before its exponent differs from 0; \<open>stringify\<close> lists the
  properties in the order of the list.
\<close>

definition hex_digit :: "cunit \<Rightarrow> cunit" where
  "hex_digit n = (if n < 10 then 0x30 + n else 0x61 + (n - 10))"

definition escape :: "cunit \<Rightarrow> jsstring" where
  "escape c =
     (if c = 0x22 then [0x5C, 0x22]
      else if c = 0x5C then [0x5C, 0x5C]
      else if c = 0x08 then [0x5C, 0x62]
      else if c = 0x09 then [0x5C, 0x74]
      else if c = 0x0A then [0x5C, 0x6E]
      else if c = 0x0C then [0x5C, 0x66]
      else if c = 0x0D then [0x5C, 0x72]
      else if c < 0x20 then [0x5C, 0x75, 0x30, 0x30, hex_digit (c div 16), hex_digit (c mod 16)]
      else [c])"

definition quote :: "jsstring \<Rightarrow> jsstring" where
  "quote s = [0x22] @ concat (map escape s) @ [0x22]"

fun stringify :: "json \<Rightarrow> jsstring" where
  "stringify JNull = js ''null''"
| "stringify (JBool b) = (if b then js ''true'' else js ''false'')"
| "stringify (JNum n) = n"
| "stringify (JStr s) = quote s"
| "stringify (JArr xs) = js ''['' @ join_comma (map stringify xs) @ js '']''"
| "stringify (JObj kvs) =
     js ''{'' @ join_comma (map (\<lambda>(k, v). quote k @ js '':'' @ stringify v) kvs) @ js ''}''"

definition sample_platform :: platform where
  "sample_platform =
     \<lparr>Number_to_boolean =
        (\<lambda>n. list_ex (\<lambda>c. 0x31 \<le> c \<and> c \<le> 0x39) (takeWhile (\<lambda>c. c \<noteq> 0x65 \<and> c \<noteq> 0x45) n)),
      Number_to_string = (\<lambda>n. n),
      JSON_stringify = stringify\<rparr>"

text \<open>An inference that is down, to run the routes that do not reach it.\<close>

definition no_AI :: "ai_input \<Rightarrow> exn + 'a" where
  "no_AI input = Inl UpstreamError"

text \<open>Requests whose body is the empty object: the required field is missing.\<close>

definition chat_without_message :: request where
  "chat_without_message =
     \<lparr>req_method = ''POST'', req_pathname = ''/api/chat'', req_searchParams = [],
      req_body = js ''{}''\<rparr>"

definition task_without_goal :: request where
  "task_without_goal =
     \<lparr>req_method = ''POST'', req_pathname = ''/api/task'', req_searchParams = [],
      req_body = js ''{}''\<rparr>"

text \<open>
  What POST /api/chat replies for a result of the inference:
  \<open>result?.response ?? result?.output_text ?? JSON.stringify(result)\<close>.
\<close>

definition chat_reply :: "platform \<Rightarrow> json option \<Rightarrow> json option" where
  "chat_reply pf result =
     coalesce (opt_prop result (js ''response''))
       (coalesce (opt_prop result (js ''output_text''))
          (map_option (\<lambda>v. JStr (JSON_stringify pf v)) result))"

definition assistant_turn :: "json option \<Rightarrow> json" where
  "assistant_turn reply =
     js_object [(''role'', Some (JStr (js ''assistant''))), (''content'', reply)]"

text \<open>A world where two identities have a history, and requests without a \<open>user\<close>.\<close>

definition two_histories :: world where
  "two_histories =
     \<lparr>memory = (\<lambda>u. None)(js ''demo'' := Some [user_message (Some (JStr (js ''one'')))],
                            js ''bob'' := Some [user_message (Some (JStr (js ''two'')))]),
      jobs = []\<rparr>"

definition clear_request :: request where
  "clear_request =
     \<lparr>req_method = ''POST'', req_pathname = ''/api/clear'', req_searchParams = [],
      req_body = []\<rparr>"

definition chat_request :: request where
  "chat_request =
     \<lparr>req_method = ''POST'', req_pathname = ''/api/chat'', req_searchParams = [],
      req_body = js ''{\"message\":\"hi\"}''\<rparr>"

definition stream_request :: request where
  "stream_request =
     \<lparr>req_method = ''POST'', req_pathname = ''/api/chat/stream'', req_searchParams = [],
      req_body = js ''{\"message\":\"hi\"}''\<rparr>"

definition answer_hey :: "ai_input \<Rightarrow> exn + json option" where
  "answer_hey input = Inr (Some (JObj [(js ''response'', JStr (js ''hey''))]))"

definition stream_Hi :: "ai_input \<Rightarrow> exn + upstream" where
  "stream_Hi input = Inr \<lparr>up_chunks = [frame_Hi], up_ending = EndOfInput\<rparr>"

section \<open>Properties of the Conversation Store\<close>

lemma slice_last_rev: "slice_last n xs = rev (take n (rev xs))"
  by (simp add: slice_last_def take_rev)

lemma slice_last_idem: "slice_last n (slice_last n xs @ ys) = slice_last n (xs @ ys)"
  by (simp add: slice_last_rev min_def)


lemma slice_last_length: "length (slice_last 20 xs) \<le> 20"
  by (simp add: slice_last_def)

lemma slice_last_short: "length xs \<le> n \<Longrightarrow> slice_last n xs = xs"
  by (simp add: slice_last_def)

lemma slice_last_append_long:
  "n \<le> length ys \<Longrightarrow> slice_last n (xs @ ys) = drop (length ys - n) ys"
  by (simp add: slice_last_def)

lemma stub_fetch_append:
  "stub_fetch u (append_req m) mem =
     (Inr (AppendJson True (length (slice_last 20 (storage_get_history (mem u) @ [m])))),
          mem(u := Some (slice_last 20 (storage_get_history (mem u) @ [m]))))"
  by (simp add: stub_fetch_def MemoryDO_fetch_def append_req_def Let_def)

lemma stub_fetch_get:
  "stub_fetch u get_req mem = (Inr (HistoryJson (storage_get_history (mem u))), mem)"
  by (simp add: stub_fetch_def MemoryDO_fetch_def get_req_def Let_def)

lemma stub_fetch_clear:
  "stub_fetch u clear_req mem = (Inr (OkJson True), mem(u := None))"
  by (simp add: stub_fetch_def MemoryDO_fetch_def clear_req_def)

lemma stub_run_appends:
  "ms \<noteq> [] \<Longrightarrow>
   \<exists>resps. stub_run u (map append_req ms) mem =
     (Inr resps, mem(u := Some (slice_last 20 (storage_get_history (mem u) @ ms))))"
proof (induction ms arbitrary: mem)
  case Nil
  then show ?case by simp
next
  case (Cons m ms)
  show ?case
  proof (cases "ms = []")
    case True
    then show ?thesis by (simp add: stub_fetch_append fun_eq_iff)
  next
    case False
    let ?mem' = "mem(u := Some (slice_last 20 (storage_get_history (mem u) @ [m])))"
    from Cons.IH [OF False, of ?mem'] obtain resps where
      r: "stub_run u (map append_req ms) ?mem' =
            (Inr resps, ?mem'(u := Some (slice_last 20 (storage_get_history (?mem' u) @ ms))))"
      by blast
    have h: "slice_last 20 (storage_get_history (?mem' u) @ ms) =
          slice_last 20 (storage_get_history (mem u) @ m # ms)"
      using slice_last_idem [of 20 "storage_get_history (mem u) @ [m]" ms]
      by (simp add: storage_get_history_def)
    have e: "?mem'(u := Some (slice_last 20 (storage_get_history (?mem' u) @ ms))) =
             mem(u := Some (slice_last 20 (storage_get_history (mem u) @ m # ms)))"
      unfolding h by simp
    have "stub_run u (map append_req (m # ms)) mem =
            (Inr (AppendJson True (length (slice_last 20 (storage_get_history (mem u) @ [m]))) # resps),
                 ?mem'(u := Some (slice_last 20 (storage_get_history (?mem' u) @ ms))))"
      using r by (simp add: stub_fetch_append)
    then show ?thesis unfolding e by blast
  qed
qed

lemma MemoryDO_fetch_bounded:
  "bounded st \<Longrightarrow> MemoryDO_fetch r st = (res, st') \<Longrightarrow> bounded st'"
  by (auto simp: MemoryDO_fetch_def bounded_def storage_get_history_def Let_def slice_last_def
           split: if_splits option.splits)

text \<open>
  Claim C1. After more than 20 appends to one identity, whatever was stored before, a
  \<open>get\<close> answers with exactly the last 20 appended messages in their order, and after each
  of the appends the stored history has at most 20 entries. Moreover no request of any
  kind takes a history of at most 20 entries to a longer one.
\<close>

theorem store_keeps_last_20:
  assumes "20 < length ms"
  shows "\<exists>resps mem'.
           stub_run u (map append_req ms) mem = (Inr resps, mem') \<and>
           stub_fetch u get_req mem' = (Inr (HistoryJson (drop (length ms - 20) ms)), mem') \<and>
           (\<forall>k. 0 < k \<and> k \<le> length ms \<longrightarrow>
              (\<exists>rs m. stub_run u (map append_req (take k ms)) mem = (Inr rs, m) \<and>
                 length (storage_get_history (m u)) \<le> 20)) \<and>
           (bounded (mem u) \<longrightarrow> bounded (snd (stub_fetch u r mem) u))"
proof -
  from assms have ne: "ms \<noteq> []" by auto
  from stub_run_appends [OF ne, of u mem] obtain resps where
    r: "stub_run u (map append_req ms) mem =
          (Inr resps, mem(u := Some (slice_last 20 (storage_get_history (mem u) @ ms))))"
    by blast
  have g: "slice_last 20 (storage_get_history (mem u) @ ms) = drop (length ms - 20) ms"
    using assms by (simp add: slice_last_append_long)
  have inv: "\<exists>rs m. stub_run u (map append_req (take k ms)) mem = (Inr rs, m) \<and>
                 length (storage_get_history (m u)) \<le> 20"
    if "0 < k \<and> k \<le> length ms" for k
  proof -
    from that ne have "take k ms \<noteq> []" by auto
    from stub_run_appends [OF this, of u mem] show ?thesis
      by (auto simp: storage_get_history_def slice_last_length)
  qed
  have step: "bounded (mem u) \<longrightarrow> bounded (snd (stub_fetch u r mem) u)"
    using MemoryDO_fetch_bounded [of "mem u" r]
    by (cases "MemoryDO_fetch r (mem u)") (simp add: stub_fetch_def)
  from r g inv step show ?thesis
    by (simp add: stub_fetch_get storage_get_history_def)
qed

theorem store_keeps_last_20_witness:
  "20 < length [1, 2, 3, 4, 5, 6, 7, 8, 9, 10, 11, 12, 13, 14, 15, 16, 17, 18, 19, 20, 21 :: nat] \<and>
   (\<exists>resps mem'.
      stub_run ''demo''
        (map append_req [1, 2, 3, 4, 5, 6, 7, 8, 9, 10, 11, 12, 13, 14, 15, 16, 17, 18, 19, 20, 21 :: nat])
        (\<lambda>_. None) = (Inr resps, mem') \<and>
      stub_fetch ''demo'' get_req mem' =
        (Inr (HistoryJson [2, 3, 4, 5, 6, 7, 8, 9, 10, 11, 12, 13, 14, 15, 16, 17, 18, 19, 20, 21]), mem')) \<and>
   bounded ((\<lambda>_. None :: nat list option) ''demo'') \<and>
   bounded (snd (stub_fetch ''demo'' (append_req (0 :: nat)) (\<lambda>_. None)) ''demo'')"
proof -
  have h: "20 < length [1, 2, 3, 4, 5, 6, 7, 8, 9, 10, 11, 12, 13, 14, 15, 16, 17, 18, 19, 20, 21 :: nat]"
    by simp
  have b: "bounded ((\<lambda>_. None :: nat list option) ''demo'')"
    by (simp add: bounded_def storage_get_history_def)
  from store_keeps_last_20 [OF h, of "''demo''" "\<lambda>_. None" "append_req 0"] b
  have b': "bounded (snd (stub_fetch ''demo'' (append_req (0 :: nat)) (\<lambda>_. None)) ''demo'')"
    by blast
  from store_keeps_last_20 [OF h, of "''demo''" "\<lambda>_. None" "append_req 0"] obtain resps mem' where
    "stub_run ''demo''
        (map append_req [1, 2, 3, 4, 5, 6, 7, 8, 9, 10, 11, 12, 13, 14, 15, 16, 17, 18, 19, 20, 21 :: nat])
        (\<lambda>_. None) = (Inr resps, mem')"
    and "stub_fetch ''demo'' get_req mem' =
        (Inr (HistoryJson (drop (length [1, 2, 3, 4, 5, 6, 7, 8, 9, 10, 11, 12, 13, 14, 15, 16, 17, 18, 19, 20, 21 :: nat] - 20)
               [1, 2, 3, 4, 5, 6, 7, 8, 9, 10, 11, 12, 13, 14, 15, 16, 17, 18, 19, 20, 21])), mem')"
    by blast
  then show ?thesis using h b b' by auto
qed

text \<open>
  Claim C8. For every identity and every stored content, \<open>clear\<close> followed by \<open>get\<close>
  answers with the empty history; and a \<open>get\<close> for an identity that has no stored
  history answers with the empty history instead of raising.
\<close>

theorem clear_then_get_empty:
  "(\<exists>mem'. stub_fetch u clear_req mem = (Inr (OkJson True), mem') \<and>
            stub_fetch u get_req mem' = (Inr (HistoryJson []), mem')) \<and>
   (mem u = None \<longrightarrow> stub_fetch u get_req mem = (Inr (HistoryJson []), mem))"
  by (simp add: stub_fetch_clear stub_fetch_get storage_get_history_def)

theorem clear_then_get_empty_witness:
  "(\<lambda>_. None :: nat list option) ''demo'' = None \<and>
   stub_fetch ''demo'' get_req (\<lambda>_. None :: nat list option) = (Inr (HistoryJson []), \<lambda>_. None) \<and>
   (\<exists>mem'. stub_fetch ''demo'' clear_req ((\<lambda>_. None)(''demo'' := Some [1, 2, 3 :: nat])) =
              (Inr (OkJson True), mem') \<and>
            stub_fetch ''demo'' get_req mem' = (Inr (HistoryJson []), mem'))"
  using clear_then_get_empty [of "''demo''" "\<lambda>_. None :: nat list option"]
        clear_then_get_empty [of "''demo''" "(\<lambda>_. None)(''demo'' := Some [1, 2, 3 :: nat])"]
  by simp

section \<open>Properties of the Stream Relay\<close>

lemma starts_with_append: "starts_with s p \<Longrightarrow> starts_with (s @ t) p"
  by (induction s p rule: starts_with.induct) auto

lemma starts_with_length: "starts_with s p \<Longrightarrow> length p \<le> length s"
  by (induction s p rule: starts_with.induct) auto

lemma starts_with_shorten:
  "starts_with (s @ t) p \<Longrightarrow> length p \<le> length s \<Longrightarrow> starts_with s p"
  by (induction s p rule: starts_with.induct) auto

lemma index_of_fits: "index_of s needle = Some i \<Longrightarrow> i + length needle \<le> length s"
proof (induction s arbitrary: i)
  case Nil
  then show ?case by (auto split: if_splits)
next
  case (Cons c cs)
  then show ?case
    using starts_with_length [of "c # cs" needle] by (auto split: if_splits)
qed

lemma index_of_append:
  "index_of s needle = Some i \<Longrightarrow> index_of (s @ t) needle = Some i"
proof (induction s arbitrary: i)
  case Nil
  then show ?case by (cases t) (auto split: if_splits)
next
  case (Cons c cs)
  then show ?case
    using starts_with_append [of "c # cs" needle t]
          starts_with_shorten [of "c # cs" t needle]
    by (auto split: if_splits dest: index_of_fits)
qed

lemma drain_append:
  "drain (buffer @ t) full = (case drain buffer full of (b, f) \<Rightarrow> drain (b @ t) f)"
proof (induction buffer full rule: drain.induct)
  case (1 buffer full)
  show ?case
  proof (cases "index_of buffer frame_delimiter")
    case None
    then show ?thesis by (subst (2) drain.simps) simp
  next
    case (Some idx)
    have b: "idx + 2 \<le> length buffer"
      using index_of_fits [OF Some] by (simp add: frame_delimiter_def)
    have i: "index_of (buffer @ t) frame_delimiter = Some idx"
      using Some by (rule index_of_append)
    have "drain (buffer @ t) full =
          drain (drop (idx + 2) buffer @ t) (scan_frame (take idx buffer) full)"
      using i b by (subst drain.simps) simp
    also have "\<dots> = (case drain (drop (idx + 2) buffer) (scan_frame (take idx buffer) full) of
                       (b, f) \<Rightarrow> drain (b @ t) f)"
      using "1.IH" [OF Some] .
    also have "drain (drop (idx + 2) buffer) (scan_frame (take idx buffer) full) = drain buffer full"
      using Some by (subst (2) drain.simps) simp
    finally show ?thesis .
  qed
qed


lemma decode_stream_append:
  "decode_stream d (a @ b) =
     (case decode_stream d a of
        (d1, t1) \<Rightarrow> (case decode_stream d1 b of (d2, t2) \<Rightarrow> (d2, t1 @ t2)))"
  by (induction a arbitrary: d) (auto split: prod.splits)

lemma read_loop_Cons: "read_loop s (c # cs) = read_loop (on_chunk s c) cs"
  by (simp add: read_loop_def)

lemma read_loop_concat:
  "cs \<noteq> [] \<Longrightarrow>
   read_loop s cs =
     (case decode_stream (rs_decoder s) (concat cs) of
        (d, text) \<Rightarrow>
          (case drain (rs_buffer s @ text) (rs_full s) of
             (b, f) \<Rightarrow>
               \<lparr>rs_decoder = d, rs_buffer = b, rs_full = f,
                rs_enqueued = rs_enqueued s @ cs\<rparr>))"
proof (induction cs arbitrary: s)
  case Nil
  then show ?case by simp
next
  case (Cons c cs)
  show ?case
  proof (cases "cs = []")
    case True
    then show ?thesis by (simp add: read_loop_def on_chunk_def)
  next
    case False
    obtain d1 t1 where d1: "decode_stream (rs_decoder s) c = (d1, t1)"
      by (cases "decode_stream (rs_decoder s) c")
    obtain b1 f1 where b1: "drain (rs_buffer s @ t1) (rs_full s) = (b1, f1)"
      by (cases "drain (rs_buffer s @ t1) (rs_full s)")
    obtain d2 t2 where d2: "decode_stream d1 (concat cs) = (d2, t2)"
      by (cases "decode_stream d1 (concat cs)")
    have s1: "on_chunk s c =
                \<lparr>rs_decoder = d1, rs_buffer = b1, rs_full = f1,
                 rs_enqueued = rs_enqueued s @ [c]\<rparr>"
      by (simp add: on_chunk_def d1 b1)
    have dr: "drain (rs_buffer s @ t1 @ t2) (rs_full s) = drain (b1 @ t2) f1"
      using drain_append [of "rs_buffer s @ t1" t2 "rs_full s"] by (simp add: b1)
    have "read_loop s (c # cs) = read_loop (on_chunk s c) cs"
      by (rule read_loop_Cons)
    also have "\<dots> =
        (case drain (b1 @ t2) f1 of
           (b, f) \<Rightarrow>
             \<lparr>rs_decoder = d2, rs_buffer = b, rs_full = f,
              rs_enqueued = rs_enqueued s @ c # cs\<rparr>)"
      by (simp add: Cons.IH [OF False] s1 d2)
    finally show ?thesis
      by (simp add: decode_stream_append d1 d2 dr)
  qed
qed

lemma drain_Nil: "drain [] full = ([], full)"
  by (subst drain.simps) (simp add: frame_delimiter_def)

lemma read_loop_start:
  "read_loop relay_start cs =
     (case decode_stream new_TextDecoder (concat cs) of
        (d, text) \<Rightarrow>
          (case drain text [] of
             (b, f) \<Rightarrow> \<lparr>rs_decoder = d, rs_buffer = b, rs_full = f, rs_enqueued = cs\<rparr>))"
proof (cases "cs = []")
  case True
  then show ?thesis by (simp add: read_loop_def relay_start_def drain_Nil)
next
  case False
  then show ?thesis by (simp add: read_loop_concat relay_start_def)
qed

lemma fold_scan_line:
  "fold scan_line ls full = full @ concat (List.map_filter line_text ls)"
  by (induction ls arbitrary: full)
     (auto simp: scan_line_def List.map_filter_def split: option.splits)

lemma drain_None: "index_of buffer frame_delimiter = None \<Longrightarrow> drain buffer full = (buffer, full)"
  by (subst drain.simps) simp

lemma drain_Some:
  "index_of buffer frame_delimiter = Some idx \<Longrightarrow>
   drain buffer full = drain (drop (idx + 2) buffer) (scan_frame (take idx buffer) full)"
  by (subst drain.simps) simp

lemma lines_of_None: "index_of buffer frame_delimiter = None \<Longrightarrow> lines_of buffer = []"
  unfolding lines_of_def by (subst frames_of.simps) simp

lemma lines_of_Some:
  "index_of buffer frame_delimiter = Some idx \<Longrightarrow>
   lines_of buffer = split_on 0x0A (take idx buffer) @ lines_of (drop (idx + 2) buffer)"
  unfolding lines_of_def by (subst frames_of.simps) simp

lemma drain_frames:
  "snd (drain buffer full) = fold scan_line (lines_of buffer) full"
proof (induction buffer full rule: drain.induct)
  case (1 buffer full)
  show ?case
  proof (cases "index_of buffer frame_delimiter")
    case None
    then show ?thesis by (simp add: drain_None lines_of_None)
  next
    case (Some idx)
    then show ?thesis
      using "1.IH" [OF Some] by (simp add: drain_Some lines_of_Some scan_frame_def)
  qed
qed


lemma full_of_chunks:
  "rs_full (read_loop relay_start cs) =
     concat (List.map_filter line_text (lines_of (decoded_text (concat cs))))"
proof -
  have "rs_full (read_loop relay_start cs) = snd (drain (decoded_text (concat cs)) [])"
    by (simp add: read_loop_start decoded_text_def split: prod.splits)
  then show ?thesis by (simp add: drain_frames fold_scan_line)
qed

lemma unat_of_char: "unat (of_char c :: byte) = of_char c"
proof -
  have "(of_char c :: byte) = of_nat (of_char c)" by (simp add: of_nat_of_char)
  then have "unat (of_char c :: byte) = (of_char c :: nat) mod 256"
    by (simp only: unat_of_nat) simp
  then show ?thesis by simp
qed

lemma utf16_of_char: "utf16 (of_char c) = [of_char c]"
proof -
  have "(of_char c :: nat) < 256" by simp
  then have "(of_char c :: nat) < 0x10000" by linarith
  then show ?thesis by (simp add: utf16_def of_nat_of_char)
qed

lemma emit_seen: "bom_seen d \<Longrightarrow> emit d cps = (d, cps)"
  by (cases cps) auto

lemma emit_one: "cp \<noteq> 0xFEFF \<Longrightarrow> emit d [cp] = (d\<lparr>bom_seen := True\<rparr>, [cp])"
  by auto

lemma decode_stream_ascii:
  "bytes_needed d = 0 \<Longrightarrow> list_all (\<lambda>c. of_char c < (0x80 :: nat)) s \<Longrightarrow>
   snd (decode_stream d (ascii s)) = js s"
proof (induction s arbitrary: d)
  case Nil
  then show ?case by (simp add: ascii_def js_def)
next
  case (Cons c s)
  from Cons.prems have c: "(of_char c :: nat) < 0x80" and s: "list_all (\<lambda>c. of_char c < (0x80 :: nat)) s"
    by simp_all
  have lead: "utf8_byte d (unat (of_char c :: byte)) = (d, [of_char c])"
    using Cons.prems(1) c by (simp add: utf8_byte_def utf8_lead_def unat_of_char)
  have ne: "(of_char c :: nat) \<noteq> 0xFEFF" using c by simp
  have n: "bytes_needed (d\<lparr>bom_seen := True\<rparr>) = 0" using Cons.prems(1) by simp
  have "snd (decode_stream d (ascii (c # s))) =
        utf16 (of_char c) @ snd (decode_stream (d\<lparr>bom_seen := True\<rparr>) (ascii s))"
    by (simp add: ascii_def lead emit_one [OF ne] del: emit.simps split: prod.splits)
  then show ?case
    using Cons.IH [OF n s] by (simp add: utf16_of_char js_def)
qed

lemma decoded_text_ascii:
  "list_all (\<lambda>c. of_char c < (0x80 :: nat)) s \<Longrightarrow> decoded_text (ascii s) = js s"
  by (simp add: decoded_text_def decode_stream_ascii new_TextDecoder_def)

lemma enqueued_of_chunks: "rs_enqueued (read_loop relay_start cs) = cs"
  by (simp add: read_loop_start split: prod.splits)

lemma transcript_of_bytes:
  "transcript up =
     concat (List.map_filter line_text (lines_of (decoded_text (concat (up_chunks up)))))"
  by (simp add: transcript_def full_of_chunks)

lemma relay_blank:
  "trim (transcript up) = [] \<Longrightarrow>
   relay stub up w =
     (\<lparr>forwarded = up_chunks up, append_bodies = [], close_calls = 1,
       start_rejects = (case up_ending up of EndOfInput \<Rightarrow> None | LoopRaises e \<Rightarrow> Some e)\<rparr>, w)"
  by (simp add: relay_def transcript_def enqueued_of_chunks Let_def)

lemma relay_stored:
  "trim (transcript up) \<noteq> [] \<Longrightarrow>
   stub (append_req (assistant_message (transcript up))) w = (Inr ok, w') \<Longrightarrow>
   relay stub up w =
     (\<lparr>forwarded = up_chunks up, append_bodies = [assistant_message (transcript up)],
       close_calls = 1,
       start_rejects = (case up_ending up of EndOfInput \<Rightarrow> None | LoopRaises e \<Rightarrow> Some e)\<rparr>, w')"
  by (simp add: relay_def transcript_def enqueued_of_chunks Let_def)

lemma relay_append_fails:
  "trim (transcript up) \<noteq> [] \<Longrightarrow>
   stub (append_req (assistant_message (transcript up))) w = (Inl e, w') \<Longrightarrow>
   relay stub up w =
     (\<lparr>forwarded = up_chunks up, append_bodies = [assistant_message (transcript up)],
       close_calls = 0, start_rejects = Some e\<rparr>, w')"
  by (simp add: relay_def transcript_def enqueued_of_chunks Let_def)

text \<open>
  Claim C3. Two ways of cutting the same upstream bytes into chunks, also in the middle
  of a frame, of a JSON payload or of a code point, give the same accumulated text, and
  the relay stores the same.
\<close>

theorem rechunking_keeps_transcript:
  assumes "concat cs1 = concat cs2"
  shows "rs_full (read_loop relay_start cs1) = rs_full (read_loop relay_start cs2) \<and>
         append_bodies (fst (relay stub \<lparr>up_chunks = cs1, up_ending = e\<rparr> w)) =
         append_bodies (fst (relay stub \<lparr>up_chunks = cs2, up_ending = e\<rparr> w)) \<and>
         snd (relay stub \<lparr>up_chunks = cs1, up_ending = e\<rparr> w) =
         snd (relay stub \<lparr>up_chunks = cs2, up_ending = e\<rparr> w)"
proof -
  have f: "rs_full (read_loop relay_start cs1) = rs_full (read_loop relay_start cs2)"
    using assms by (simp add: full_of_chunks)
  then show ?thesis
    by (simp add: relay_def Let_def split: prod.splits sum.splits)
qed

theorem rechunking_keeps_transcript_witness:
  "concat [ascii (''data: {\"response\":\"Hel\"}'' @ [CHR 0x0A, CHR 0x0A]),
           ascii (''data: {\"response\":\"lo\"}'' @ [CHR 0x0A, CHR 0x0A])] =
   concat [ascii ''data: {\"respo'',
           ascii (''nse\":\"Hel\"}'' @ [CHR 0x0A]),
           ascii ([CHR 0x0A] @ ''data: {\"response\":\"lo\"}'' @ [CHR 0x0A, CHR 0x0A])] \<and>
   rs_full (read_loop relay_start
     [ascii (''data: {\"response\":\"Hel\"}'' @ [CHR 0x0A, CHR 0x0A]),
      ascii (''data: {\"response\":\"lo\"}'' @ [CHR 0x0A, CHR 0x0A])]) =
   rs_full (read_loop relay_start
     [ascii ''data: {\"respo'',
      ascii (''nse\":\"Hel\"}'' @ [CHR 0x0A]),
      ascii ([CHR 0x0A] @ ''data: {\"response\":\"lo\"}'' @ [CHR 0x0A, CHR 0x0A])])"
proof -
  have h: "concat [ascii (''data: {\"response\":\"Hel\"}'' @ [CHR 0x0A, CHR 0x0A]),
                   ascii (''data: {\"response\":\"lo\"}'' @ [CHR 0x0A, CHR 0x0A])] =
           concat [ascii ''data: {\"respo'',
                   ascii (''nse\":\"Hel\"}'' @ [CHR 0x0A]),
                   ascii ([CHR 0x0A] @ ''data: {\"response\":\"lo\"}'' @ [CHR 0x0A, CHR 0x0A])]"
    by (simp add: ascii_def)
  show ?thesis
    by (rule conjI [OF h rechunking_keeps_transcript [OF h, THEN conjunct1]])
qed

lemma line_text_Hel: "line_text (js ''data: {\"response\":\"Hel\"}'') = Some (js ''Hel'')"
  by (simp add: line_text_def trim_def is_js_space_def JSON_parse_def js_def is_json_ws_def
        is_digit_def get_prop_def)

lemma line_text_lo: "line_text (js ''data: {\"response\":\"lo\"}'') = Some (js ''lo'')"
  by (simp add: line_text_def trim_def is_js_space_def JSON_parse_def js_def is_json_ws_def
        is_digit_def get_prop_def)

lemma line_text_DONE: "line_text (js ''data: [DONE]'') = None"
  by (simp add: line_text_def trim_def is_js_space_def js_def)

lemma three_frames_bytes:
  "frame_Hel @ frame_lo @ frame_DONE =
     ascii (''data: {\"response\":\"Hel\"}'' @ [CHR 0x0A, CHR 0x0A] @
            ''data: {\"response\":\"lo\"}'' @ [CHR 0x0A, CHR 0x0A] @
            ''data: [DONE]'' @ [CHR 0x0A, CHR 0x0A])"
  by (simp add: frame_Hel_def frame_lo_def frame_DONE_def ascii_def)

lemma three_frames_lines:
  "lines_of (decoded_text (frame_Hel @ frame_lo @ frame_DONE)) =
     [js ''data: {\"response\":\"Hel\"}'', js ''data: {\"response\":\"lo\"}'', js ''data: [DONE]'']"
proof -
  let ?t = "js (''data: {\"response\":\"Hel\"}'' @ [CHR 0x0A, CHR 0x0A] @
                ''data: {\"response\":\"lo\"}'' @ [CHR 0x0A, CHR 0x0A] @
                ''data: [DONE]'' @ [CHR 0x0A, CHR 0x0A])"
  have t: "decoded_text (frame_Hel @ frame_lo @ frame_DONE) = ?t"
    unfolding three_frames_bytes by (rule decoded_text_ascii) simp
  have a: "index_of ?t frame_delimiter = Some 24"
    by (simp add: js_def frame_delimiter_def)
  have b: "index_of (drop (24 + 2) ?t) frame_delimiter = Some 23"
    by (simp add: js_def frame_delimiter_def)
  have c: "index_of (drop (23 + 2) (drop (24 + 2) ?t)) frame_delimiter = Some 12"
    by (simp add: js_def frame_delimiter_def)
  have d: "index_of (drop (12 + 2) (drop (23 + 2) (drop (24 + 2) ?t))) frame_delimiter = None"
    by (simp add: js_def frame_delimiter_def)
  show ?thesis
    unfolding t lines_of_Some [OF a] lines_of_Some [OF b] lines_of_Some [OF c] lines_of_None [OF d]
    by (simp add: js_def)
qed

lemma three_frames_transcript:
  "concat cs = frame_Hel @ frame_lo @ frame_DONE \<Longrightarrow>
   transcript \<lparr>up_chunks = cs, up_ending = e\<rparr> = js ''Hello''"
proof -
  assume "concat cs = frame_Hel @ frame_lo @ frame_DONE"
  then have "transcript \<lparr>up_chunks = cs, up_ending = e\<rparr> = js ''Hel'' @ js ''lo''"
    by (simp add: transcript_of_bytes three_frames_lines List.map_filter_def
          line_text_Hel line_text_lo line_text_DONE)
  then show ?thesis by (simp add: js_def)
qed

lemma trim_Hello: "trim (js ''Hello'') = js ''Hello''"
  by (simp add: trim_def is_js_space_def js_def)

text \<open>
  Claim C4. When the upstream delivers the three frames of the example, in whatever
  chunks, every chunk is forwarded as it came, so the client receives the three frames
  verbatim, the channel is closed, and the one message appended to the history of the
  identity is \<open>{role: "assistant", content: "Hello"}\<close>.
\<close>

theorem three_frames_relayed:
  assumes "concat cs = frame_Hel @ frame_lo @ frame_DONE"
  shows "relay (stub_fetch u) \<lparr>up_chunks = cs, up_ending = EndOfInput\<rparr> mem =
           (\<lparr>forwarded = cs,
             append_bodies = [assistant_message (js ''Hello'')],
             close_calls = 1, start_rejects = None\<rparr>,
            mem(u := Some (slice_last 20
                     (storage_get_history (mem u) @ [assistant_message (js ''Hello'')])))) \<and>
         concat (forwarded (fst (relay (stub_fetch u) \<lparr>up_chunks = cs, up_ending = EndOfInput\<rparr> mem))) =
           frame_Hel @ frame_lo @ frame_DONE"
proof -
  let ?up = "\<lparr>up_chunks = cs, up_ending = EndOfInput\<rparr>"
  have t: "transcript ?up = js ''Hello''"
    using assms by (rule three_frames_transcript)
  have n: "trim (transcript ?up) \<noteq> []"
    by (simp add: t trim_Hello) (simp add: js_def)
  have r: "relay (stub_fetch u) ?up mem =
           (\<lparr>forwarded = cs,
             append_bodies = [assistant_message (js ''Hello'')],
             close_calls = 1, start_rejects = None\<rparr>,
            mem(u := Some (slice_last 20
                     (storage_get_history (mem u) @ [assistant_message (js ''Hello'')]))))"
    using relay_stored [OF n, of "stub_fetch u" mem] by (simp add: t stub_fetch_append)
  show ?thesis unfolding r using assms by simp
qed

theorem three_frames_relayed_witness:
  "concat [frame_Hel, frame_lo, frame_DONE] = frame_Hel @ frame_lo @ frame_DONE \<and>
   relay (stub_fetch (js ''demo''))
     \<lparr>up_chunks = [frame_Hel, frame_lo, frame_DONE], up_ending = EndOfInput\<rparr> (\<lambda>u. None) =
     (\<lparr>forwarded = [frame_Hel, frame_lo, frame_DONE],
       append_bodies = [assistant_message (js ''Hello'')],
       close_calls = 1, start_rejects = None\<rparr>,
      (\<lambda>u. None)(js ''demo'' := Some [assistant_message (js ''Hello'')]))"
proof -
  have h: "concat [frame_Hel, frame_lo, frame_DONE] = frame_Hel @ frame_lo @ frame_DONE"
    by simp
  from three_frames_relayed [OF h, of "js ''demo''" "\<lambda>u. None"] show ?thesis
    by (simp add: storage_get_history_def slice_last_def)
qed

lemma frame_Hi_transcript:
  "transcript \<lparr>up_chunks = [frame_Hi], up_ending = e\<rparr> = js ''Hi''"
proof -
  let ?t = "js (''data: {\"response\":\"Hi\"}'' @ [CHR 0x0A, CHR 0x0A])"
  have t: "decoded_text frame_Hi = ?t"
    unfolding frame_Hi_def by (rule decoded_text_ascii) simp
  have a: "index_of ?t frame_delimiter = Some 23"
    by (simp add: js_def frame_delimiter_def)
  have b: "index_of (drop (23 + 2) ?t) frame_delimiter = None"
    by (simp add: js_def frame_delimiter_def)
  have l: "lines_of (decoded_text frame_Hi) = [js ''data: {\"response\":\"Hi\"}'']"
    unfolding t lines_of_Some [OF a] lines_of_None [OF b] by (simp add: js_def)
  have "line_text (js ''data: {\"response\":\"Hi\"}'') = Some (js ''Hi'')"
    by (simp add: line_text_def trim_def is_js_space_def JSON_parse_def js_def is_json_ws_def
          is_digit_def get_prop_def)
  then show ?thesis
    by (simp add: transcript_of_bytes l List.map_filter_def)
qed

lemma trim_Hi: "trim (js ''Hi'') \<noteq> []"
  by (simp add: trim_def is_js_space_def js_def)

text \<open>
  Claim C5, at an input where the code departs from it. The upstream delivers one frame
  and ends; the append of the reply is rejected. The exception leaves the \<open>finally\<close>
  block before \<open>controller.close()\<close>: the channel is never closed, and \<open>start\<close>
  rejects with the exception of the store.
\<close>

theorem failed_append_skips_close:
  "relay broken_stub \<lparr>up_chunks = [frame_Hi], up_ending = EndOfInput\<rparr> () =
     (\<lparr>forwarded = [frame_Hi], append_bodies = [assistant_message (js ''Hi'')],
       close_calls = 0, start_rejects = Some StoreError\<rparr>, ())"
proof -
  let ?up = "\<lparr>up_chunks = [frame_Hi], up_ending = EndOfInput\<rparr>"
  have n: "trim (transcript ?up) \<noteq> []"
    by (simp add: frame_Hi_transcript trim_Hi)
  have s: "broken_stub (append_req (assistant_message (transcript ?up))) () = (Inl StoreError, ())"
    by (simp add: broken_stub_def)
  from relay_append_fails [of ?up broken_stub "()" StoreError "()", OF n s] show ?thesis
    by (simp add: frame_Hi_transcript)
qed

text \<open>
  Apart from a rejected append, every execution calls \<open>controller.close()\<close> once, also
  when the loop raised.
\<close>

lemma relay_close_calls:
  "close_calls (fst (relay stub up w)) =
     (if trim (transcript up) \<noteq> [] \<and>
         isl (fst (stub (append_req (assistant_message (transcript up))) w))
      then 0 else 1)"
proof (cases "trim (transcript up) = []")
  case True
  then show ?thesis by (simp add: relay_blank)
next
  case False
  obtain res w' where s: "stub (append_req (assistant_message (transcript up))) w = (res, w')"
    by (cases "stub (append_req (assistant_message (transcript up))) w")
  show ?thesis
  proof (cases res)
    case (Inl e)
    with relay_append_fails [OF False, of stub w e w'] s False show ?thesis by simp
  next
    case (Inr ok)
    with relay_stored [OF False, of stub w ok w'] s False show ?thesis by simp
  qed
qed

lemma frame_space_transcript:
  "transcript \<lparr>up_chunks = [frame_space], up_ending = e\<rparr> = js '' ''"
proof -
  let ?t = "js (''data: {\"response\":\" \"}'' @ [CHR 0x0A, CHR 0x0A])"
  have t: "decoded_text frame_space = ?t"
    unfolding frame_space_def by (rule decoded_text_ascii) simp
  have a: "index_of ?t frame_delimiter = Some 22"
    by (simp add: js_def frame_delimiter_def)
  have b: "index_of (drop (22 + 2) ?t) frame_delimiter = None"
    by (simp add: js_def frame_delimiter_def)
  have l: "lines_of (decoded_text frame_space) = [js ''data: {\"response\":\" \"}'']"
    unfolding t lines_of_Some [OF a] lines_of_None [OF b] by (simp add: js_def)
  have "line_text (js ''data: {\"response\":\" \"}'') = Some (js '' '')"
    by (simp add: line_text_def trim_def is_js_space_def JSON_parse_def js_def is_json_ws_def
          is_digit_def get_prop_def)
  then show ?thesis
    by (simp add: transcript_of_bytes l List.map_filter_def)
qed

text \<open>
  Claim C6 as stated fails: an accumulator that holds one space is not empty, and nothing
  is appended, since the code tests \<open>full.trim().length\<close>.
\<close>

theorem space_transcript_not_stored:
  "transcript \<lparr>up_chunks = [frame_space], up_ending = EndOfInput\<rparr> \<noteq> [] \<and>
   append_bodies
     (fst (relay (stub_fetch (js ''demo''))
             \<lparr>up_chunks = [frame_space], up_ending = EndOfInput\<rparr> (\<lambda>u. None))) = []"
proof -
  have "trim (transcript \<lparr>up_chunks = [frame_space], up_ending = EndOfInput\<rparr>) = []"
    by (simp add: frame_space_transcript) (simp add: trim_def is_js_space_def js_def)
  then show ?thesis
    by (simp add: relay_blank frame_space_transcript) (simp add: js_def)
qed

text \<open>
  Claim C6, amended. When the loop is left, by the end of the input or by an exception,
  the relay sends one append of \<open>{role: "assistant", content: full}\<close> if \<open>full\<close> holds a
  character that is not white space, and none otherwise. On the stub of an identity the
  message is appended to the history of that identity, or the store is left as it was.
  When no line of a complete frame is recognised, nothing is sent and nothing is stored.
\<close>

theorem relay_stores_transcript:
  "append_bodies (fst (relay stub up w)) =
     (if trim (transcript up) = [] then [] else [assistant_message (transcript up)]) \<and>
   snd (relay (stub_fetch u) up mem) =
     (if trim (transcript up) = [] then mem
      else mem(u := Some (slice_last 20
                  (storage_get_history (mem u) @ [assistant_message (transcript up)])))) \<and>
   ((\<forall>line \<in> set (lines_of (decoded_text (concat (up_chunks up)))). line_text line = None) \<longrightarrow>
      append_bodies (fst (relay stub up w)) = [] \<and> snd (relay stub up w) = w)"
proof (intro conjI impI)
  show "append_bodies (fst (relay stub up w)) =
     (if trim (transcript up) = [] then [] else [assistant_message (transcript up)])"
  proof (cases "trim (transcript up) = []")
    case True
    then show ?thesis by (simp add: relay_blank)
  next
    case False
    obtain res w' where s: "stub (append_req (assistant_message (transcript up))) w = (res, w')"
      by (cases "stub (append_req (assistant_message (transcript up))) w")
    show ?thesis
    proof (cases res)
      case (Inl e)
      with relay_append_fails [OF False, of stub w e w'] s False show ?thesis by simp
    next
      case (Inr ok)
      with relay_stored [OF False, of stub w ok w'] s False show ?thesis by simp
    qed
  qed
next
  show "snd (relay (stub_fetch u) up mem) =
     (if trim (transcript up) = [] then mem
      else mem(u := Some (slice_last 20
                  (storage_get_history (mem u) @ [assistant_message (transcript up)]))))"
  proof (cases "trim (transcript up) = []")
    case True
    then show ?thesis by (simp add: relay_blank)
  next
    case False
    from relay_stored [OF False, of "stub_fetch u" mem] False show ?thesis
      by (simp add: stub_fetch_append)
  qed
next
  assume a: "\<forall>line \<in> set (lines_of (decoded_text (concat (up_chunks up)))). line_text line = None"
  have "List.map_filter line_text (lines_of (decoded_text (concat (up_chunks up)))) = []"
    using a by (simp add: List.map_filter_def filter_empty_conv)
  then have "transcript up = []"
    by (simp add: transcript_of_bytes)
  then have b: "trim (transcript up) = []"
    by (simp add: trim_def)
  show "append_bodies (fst (relay stub up w)) = []"
    by (simp add: relay_blank [OF b])
  show "snd (relay stub up w) = w"
    by (simp add: relay_blank [OF b])
qed

lemma frame_ping_lines: "lines_of (decoded_text (concat [frame_ping])) = [js '': ping'']"
proof -
  let ?t = "js ('': ping'' @ [CHR 0x0A, CHR 0x0A])"
  have t: "decoded_text frame_ping = ?t"
    unfolding frame_ping_def by (rule decoded_text_ascii) simp
  have a: "index_of ?t frame_delimiter = Some 6"
    by (simp add: js_def frame_delimiter_def)
  have b: "index_of (drop (6 + 2) ?t) frame_delimiter = None"
    by (simp add: js_def frame_delimiter_def)
  show ?thesis
    unfolding concat.simps append_Nil2 t lines_of_Some [OF a] lines_of_None [OF b]
    by (simp add: js_def)
qed

theorem relay_stores_transcript_witness:
  "trim (transcript \<lparr>up_chunks = [frame_Hi], up_ending = LoopRaises UpstreamError\<rparr>) \<noteq> [] \<and>
   append_bodies
     (fst (relay (stub_fetch (js ''demo''))
             \<lparr>up_chunks = [frame_Hi], up_ending = LoopRaises UpstreamError\<rparr> (\<lambda>u. None))) =
     [assistant_message (js ''Hi'')] \<and>
   snd (relay (stub_fetch (js ''demo''))
          \<lparr>up_chunks = [frame_Hi], up_ending = LoopRaises UpstreamError\<rparr> (\<lambda>u. None)) =
     (\<lambda>u. None)(js ''demo'' := Some [assistant_message (js ''Hi'')]) \<and>
   lines_of (decoded_text (concat [frame_ping])) = [js '': ping''] \<and>
   line_text (js '': ping'') = None \<and>
   append_bodies
     (fst (relay (stub_fetch (js ''demo''))
             \<lparr>up_chunks = [frame_ping], up_ending = EndOfInput\<rparr> (\<lambda>u. None))) = [] \<and>
   snd (relay (stub_fetch (js ''demo''))
          \<lparr>up_chunks = [frame_ping], up_ending = EndOfInput\<rparr> (\<lambda>u. None)) = (\<lambda>u. None)"
proof -
  let ?hi = "\<lparr>up_chunks = [frame_Hi], up_ending = LoopRaises UpstreamError\<rparr>"
  let ?ping = "\<lparr>up_chunks = [frame_ping], up_ending = EndOfInput\<rparr>"
  have n: "trim (transcript ?hi) \<noteq> []"
    by (simp add: frame_Hi_transcript trim_Hi)
  have q: "line_text (js '': ping'') = None"
    by (simp add: line_text_def trim_def is_js_space_def js_def)
  have p: "\<forall>line \<in> set (lines_of (decoded_text (concat [frame_ping]))). line_text line = None"
    unfolding frame_ping_lines using q by simp
  have p': "\<forall>line \<in> set (lines_of (decoded_text (concat (up_chunks ?ping)))). line_text line = None"
    using p by simp
  note hi = relay_stores_transcript [of "stub_fetch (js ''demo'')" ?hi "\<lambda>u. None" "js ''demo''" "\<lambda>u. None"]
  note ping = relay_stores_transcript [of "stub_fetch (js ''demo'')" ?ping "\<lambda>u. None" "js ''demo''" "\<lambda>u. None"]
  from hi n have h1: "append_bodies (fst (relay (stub_fetch (js ''demo'')) ?hi (\<lambda>u. None))) =
      [assistant_message (js ''Hi'')]"
    by (simp add: frame_Hi_transcript)
  from hi n have h2: "snd (relay (stub_fetch (js ''demo'')) ?hi (\<lambda>u. None)) =
      (\<lambda>u. None)(js ''demo'' := Some [assistant_message (js ''Hi'')])"
    by (simp add: frame_Hi_transcript storage_get_history_def slice_last_def)
  from ping p' have p1: "append_bodies (fst (relay (stub_fetch (js ''demo'')) ?ping (\<lambda>u. None))) = []"
    and p2: "snd (relay (stub_fetch (js ''demo'')) ?ping (\<lambda>u. None)) = (\<lambda>u. None)"
    by blast+
  from n h1 h2 frame_ping_lines q p1 p2 show ?thesis by blast
qed

section \<open>Properties of the Worker\<close>

lemma parse_empty_object: "JSON_parse (js ''{}'') = Some (JObj [])"
  by (simp add: JSON_parse_def js_def is_json_ws_def is_digit_def)

lemma world_MEMORY_append:
  "MEMORY (world_env ai ai_s) u (append_req m) w =
     (Inr (AppendJson True (length (slice_last 20 (storage_get_history (memory w u) @ [m])))),
      w\<lparr>memory := (memory w)(u := Some (slice_last 20 (storage_get_history (memory w u) @ [m])))\<rparr>)"
  by (simp add: world_env_def stub_fetch_append)

lemma world_MEMORY_get:
  "MEMORY (world_env ai ai_s) u get_req w = (Inr (HistoryJson (storage_get_history (memory w u))), w)"
  by (simp add: world_env_def stub_fetch_get)

lemma world_AI_run: "AI_run (world_env ai ai_s) = ai"
  by (simp add: world_env_def)

lemma await_Inl: "await (Inl e, w) f = (Inl e, w)"
  by (simp add: await_def)

lemma await_Inr: "await (Inr x, w) f = f x w"
  by (simp add: await_def)

lemma chat_without_message_result:
  "fetch pf (world_env ai ai_s) chat_without_message empty_world = (res, w') \<Longrightarrow>
   take 1 (storage_get_history (memory w' (js ''demo''))) = [JObj [(js ''role'', JStr (js ''user''))]] \<and>
   \<not> is_client_error res"
proof -
  let ?m = "JObj [(js ''role'', JStr (js ''user''))]"
  let ?w1 = "empty_world\<lparr>memory := (memory empty_world)(js ''demo'' := Some [?m])\<rparr>"
  let ?input = "\<lparr>ai_model = chat_model, ai_messages = [system_message, ?m],
                 ai_stream = False, ai_max_tokens = 300, ai_temperature = ''0.4''\<rparr>"
  assume r: "fetch pf (world_env ai ai_s) chat_without_message empty_world = (res, w')"
  have f: "fetch pf (world_env ai ai_s) chat_without_message empty_world =
           handle_chat pf (world_env ai ai_s) (js ''demo'') chat_without_message empty_world"
    by (simp add: fetch_def chat_without_message_def select_user_def)
  have a: "MEMORY (world_env ai ai_s) (js ''demo'') (append_req ?m) empty_world =
           (Inr (AppendJson True 1), ?w1)"
    by (simp add: world_MEMORY_append empty_world_def storage_get_history_def slice_last_def)
  have g: "MEMORY (world_env ai ai_s) (js ''demo'') get_req ?w1 = (Inr (HistoryJson [?m]), ?w1)"
    by (simp add: world_MEMORY_get storage_get_history_def)
  have h: "handle_chat pf (world_env ai ai_s) (js ''demo'') chat_without_message empty_world =
           await (ai ?input, ?w1) (\<lambda>result w.
             (let reply =
                    coalesce (opt_prop result (js ''response''))
                      (coalesce (opt_prop result (js ''output_text''))
                         (map_option (\<lambda>v. JStr (JSON_stringify pf v)) result))
              in await (MEMORY (world_env ai ai_s) (js ''demo'')
                          (append_req (js_object [(''role'', Some (JStr (js ''assistant''))),
                                                  (''content'', reply)])) w) (\<lambda>stored w.
                   (Inr (Response_json (js_object [(''reply'', reply)])), w))))"
    by (simp add: handle_chat_def chat_without_message_def request_json_def parse_empty_object
          get_prop_def js_object_def await_Inr a g world_AI_run)
  show ?thesis
  proof (cases "ai ?input")
    case (Inl e)
    with r f h have "res = Inl e" and "w' = ?w1"
      by (simp_all add: await_Inl)
    then show ?thesis
      by (simp add: storage_get_history_def is_client_error_def)
  next
    case (Inr result)
    with r f h show ?thesis
      by (auto simp: await_Inr Let_def world_MEMORY_append storage_get_history_def
            slice_last_def is_client_error_def Response_json_def)
  qed
qed

lemma task_without_goal_result:
  "fetch pf (world_env ai ai_s) task_without_goal empty_world =
     (Inr (Response_json
             (JObj [(js ''id'', JStr (js ''job-'')),
                    (js ''status'', JObj [(js ''status'', JStr (js ''queued''))])])),
      empty_world\<lparr>jobs := [(js ''job-'', None)]\<rparr>)"
  by (simp add: fetch_def task_without_goal_def handle_task_start_def await_def request_json_def
        parse_empty_object get_prop_def js_object_def select_user_def
        empty_world_def world_env_def queued_instance_def)

text \<open>
  Claim C7, at inputs where the code departs from it. A POST to /api/chat whose body is
  \<open>{}\<close> is not rejected: whatever the inference answers, the history of the identity
  then starts with a user message that has no content, and the response is no client
  error. A POST to /api/task whose body is \<open>{}\<close> creates an instance without a goal.
\<close>

theorem missing_field_not_rejected:
  "take 1 (storage_get_history
             (memory (snd (fetch pf (world_env ai ai_s) chat_without_message empty_world))
                (js ''demo''))) =
     [JObj [(js ''role'', JStr (js ''user''))]] \<and>
   \<not> is_client_error (fst (fetch pf (world_env ai ai_s) chat_without_message empty_world)) \<and>
   jobs (snd (fetch pf (world_env ai ai_s) task_without_goal empty_world)) = [(js ''job-'', None)] \<and>
   \<not> is_client_error (fst (fetch pf (world_env ai ai_s) task_without_goal empty_world))"
proof -
  obtain res w' where r: "fetch pf (world_env ai ai_s) chat_without_message empty_world = (res, w')"
    by (cases "fetch pf (world_env ai ai_s) chat_without_message empty_world")
  from chat_without_message_result [OF r] r show ?thesis
    by (simp add: task_without_goal_result is_client_error_def Response_json_def)
qed

text \<open>The sibling route does reject: GET /api/task without \<open>instanceId\<close> changes nothing.\<close>

lemma task_status_requires_instanceId:
  "map_of (req_searchParams request) (js ''instanceId'') = None \<Longrightarrow>
   req_method request = ''GET'' \<Longrightarrow> req_pathname request = ''/api/task'' \<Longrightarrow>
   fetch pf env request w =
     (Inr \<lparr>status = 400, headers = [(''content-type'', ''text/plain;charset=UTF-8'')],
           body = TextBody ''Missing instanceId''\<rparr>, w)"
  by (simp add: fetch_def handle_task_status_def)

lemma world_MEMORY_clear:
  "MEMORY (world_env ai ai_s) u clear_req w = (Inr (OkJson True), w\<lparr>memory := (memory w)(u := None)\<rparr>)"
  by (simp add: world_env_def stub_fetch_clear)

lemma world_MEMORY_elsewhere:
  "u' \<noteq> u \<Longrightarrow> memory (snd (MEMORY (world_env ai ai_s) u r w)) u' = memory w u'"
  by (simp add: world_env_def stub_fetch_def split: prod.splits)

lemma world_AI_run_stream: "AI_run_stream (world_env ai ai_s) = ai_s"
  by (simp add: world_env_def)

lemma await_keeps:
  assumes "P (snd m)" and "\<And>x w. P w \<Longrightarrow> P (snd (f x w))"
  shows "P (snd (await m f))"
  using assms by (cases m; cases "fst m") (auto simp: await_def)

lemma relay_world:
  "relay (MEMORY (world_env ai ai_s) u) up w =
     (\<lparr>forwarded = up_chunks up,
       append_bodies = (if trim (transcript up) = [] then [] else [assistant_message (transcript up)]),
       close_calls = 1,
       start_rejects = (case up_ending up of EndOfInput \<Rightarrow> None | LoopRaises e \<Rightarrow> Some e)\<rparr>,
      if trim (transcript up) = [] then w
      else w\<lparr>memory := (memory w)(u := Some (slice_last 20
                (storage_get_history (memory w u) @ [assistant_message (transcript up)])))\<rparr>)"
proof (cases "trim (transcript up) = []")
  case True
  then show ?thesis by (simp add: relay_blank)
next
  case False
  from relay_stored [OF False, of "MEMORY (world_env ai ai_s) u" w] False show ?thesis
    by (simp add: world_MEMORY_append)
qed

lemma handle_clear_world:
  "handle_clear (world_env ai ai_s) u w =
     (Inr (Response_json (JObj [(js ''ok'', JBool True)])), w\<lparr>memory := (memory w)(u := None)\<rparr>)"
  by (simp add: handle_clear_def world_MEMORY_clear await_Inr js_object_def)

lemma handle_chat_world:
  assumes "JSON_parse (req_body request) = Some parsed"
    and "get_prop parsed (js ''message'') = Inr message"
  shows "handle_chat pf (world_env ai ai_s) u request w =
     (let H = slice_last 20 (storage_get_history (memory w u) @ [user_message message]) in
      case ai \<lparr>ai_model = chat_model, ai_messages = system_message # H,
               ai_stream = False, ai_max_tokens = 300, ai_temperature = ''0.4''\<rparr> of
        Inl e \<Rightarrow> (Inl e, w\<lparr>memory := (memory w)(u := Some H)\<rparr>)
      | Inr result \<Rightarrow>
          (Inr (Response_json (js_object [(''reply'', chat_reply pf result)])),
           w\<lparr>memory := (memory w)(u := Some (slice_last 20
                     (H @ [assistant_turn (chat_reply pf result)])))\<rparr>))"
  using assms
  by (simp add: handle_chat_def request_json_def await_Inr world_MEMORY_append world_MEMORY_get
        world_AI_run storage_get_history_def user_message_def chat_reply_def assistant_turn_def
        Let_def await_def split: sum.splits)

lemma handle_chat_stream_world:
  assumes "JSON_parse (req_body request) = Some parsed"
    and "get_prop parsed (js ''message'') = Inr message"
  shows "handle_chat_stream (world_env ai ai_s) u request w =
     (let H = slice_last 20 (storage_get_history (memory w u) @ [user_message message]) in
      case ai_s \<lparr>ai_model = chat_model, ai_messages = system_message # H,
                 ai_stream = True, ai_max_tokens = 400, ai_temperature = ''0.4''\<rparr> of
        Inl e \<Rightarrow> (Inl e, w\<lparr>memory := (memory w)(u := Some H)\<rparr>)
      | Inr up \<Rightarrow>
          (Inr \<lparr>status = 200,
                headers = [(''content-type'', ''text/event-stream''),
                           (''cache-control'', ''no-cache''),
                           (''connection'', ''keep-alive'')],
                body = StreamBody (up_chunks up) None\<rparr>,
           w\<lparr>memory := (memory w)(u := Some
                 (if trim (transcript up) = [] then H
                  else slice_last 20 (H @ [assistant_message (transcript up)])))\<rparr>))"
  using assms
  by (simp add: handle_chat_stream_def request_json_def await_Inr world_MEMORY_append
        world_MEMORY_get world_AI_run_stream storage_get_history_def user_message_def
        relay_world Let_def await_def split: sum.splits)

lemma relay_keeps:
  assumes "P w" and "\<And>r w. P w \<Longrightarrow> P (snd (stub r w))"
  shows "P (snd (relay stub up w))"
proof (cases "trim (transcript up) = []")
  case True
  then show ?thesis using assms(1) by (simp add: relay_blank)
next
  case False
  obtain res w' where s: "stub (append_req (assistant_message (transcript up))) w = (res, w')"
    by (cases "stub (append_req (assistant_message (transcript up))) w")
  from assms(2) [OF assms(1), of "append_req (assistant_message (transcript up))"] s
  have p: "P w'" by simp
  show ?thesis
  proof (cases res)
    case (Inl e)
    with relay_append_fails [OF False, of stub w e w'] s p show ?thesis by simp
  next
    case (Inr ok)
    with relay_stored [OF False, of stub w ok w'] s p show ?thesis by simp
  qed
qed

lemma snd_case_pair: "snd (case p of (r, w') \<Rightarrow> (g r, w')) = snd p"
  by (cases p) simp

lemma fetch_world_elsewhere:
  assumes "u' \<noteq> select_user request"
  shows "memory (snd (fetch pf (world_env ai ai_s) request w)) u' = memory w u'"
proof -
  let ?P = "\<lambda>w'. memory w' u' = memory w u'"
  let ?env = "world_env ai ai_s"
  let ?u = "select_user request"
  have M: "\<And>r w'. ?P w' \<Longrightarrow> ?P (snd (MEMORY ?env ?u r w'))"
    using assms by (simp add: world_MEMORY_elsewhere)
  have R: "\<And>up w'. ?P w' \<Longrightarrow> ?P (snd (relay (MEMORY ?env ?u) up w'))"
    by (rule relay_keeps [where P = ?P]) (simp_all add: M)
  have chat: "?P (snd (handle_chat pf ?env ?u request w))"
    unfolding handle_chat_def Let_def
    by (intro await_keeps [where P = ?P] M) simp_all
  have stream: "?P (snd (handle_chat_stream ?env ?u request w))"
    unfolding handle_chat_stream_def
    by (intro await_keeps [where P = ?P] M) (simp_all add: snd_case_pair R)
  have clear: "?P (snd (handle_clear ?env ?u w))"
    unfolding handle_clear_def
    by (intro await_keeps [where P = ?P] M) simp_all
  have start: "?P (snd (handle_task_start ?env request w))"
    unfolding handle_task_start_def
    by (intro await_keeps [where P = ?P]) (simp_all add: world_env_def await_def split: sum.splits)
  have status: "?P (snd (handle_task_status ?env request w))"
    unfolding handle_task_status_def
    by (auto simp: world_env_def await_def split: option.splits sum.splits)
  show ?thesis
    using chat stream clear start status by (simp add: fetch_def Let_def)
qed

text \<open>
  Claim C9. A request without a \<open>user\<close> parameter selects the identity \<open>"demo"\<close>, and
  the worker answers it, and changes the world, exactly as if \<open>user=demo\<close> had been
  given. On the store of the repository such a request leaves the history of every other
  identity as it was; POST /api/clear deletes the history of \<open>"demo"\<close>; POST /api/chat
  and POST /api/chat/stream append the user message to the history of \<open>"demo"\<close>, give
  that history to the inference, and append the reply to it. So all such requests read
  and write the one history of \<open>"demo"\<close>.
\<close>

theorem no_user_selects_demo:
  assumes "map_of (req_searchParams request) (js ''user'') = None"
  shows "select_user request = js ''demo'' \<and>
         fetch pf env request w =
         fetch pf env
           (request\<lparr>req_searchParams := req_searchParams request @ [(js ''user'', js ''demo'')]\<rparr>) w \<and>
         (\<forall>u. u \<noteq> js ''demo'' \<longrightarrow>
              memory (snd (fetch pf (world_env ai ai_s) request wd)) u = memory wd u) \<and>
         (req_method request = ''POST'' \<and> req_pathname request = ''/api/clear'' \<longrightarrow>
            fetch pf (world_env ai ai_s) request wd =
              (Inr (Response_json (JObj [(js ''ok'', JBool True)])),
               wd\<lparr>memory := (memory wd)(js ''demo'' := None)\<rparr>)) \<and>
         (req_method request = ''POST'' \<and> req_pathname request = ''/api/chat'' \<and>
          JSON_parse (req_body request) = Some parsed \<and>
          get_prop parsed (js ''message'') = Inr message \<longrightarrow>
            fetch pf (world_env ai ai_s) request wd =
              (let H = slice_last 20
                         (storage_get_history (memory wd (js ''demo'')) @ [user_message message]) in
               case ai \<lparr>ai_model = chat_model, ai_messages = system_message # H,
                        ai_stream = False, ai_max_tokens = 300, ai_temperature = ''0.4''\<rparr> of
                 Inl e \<Rightarrow> (Inl e, wd\<lparr>memory := (memory wd)(js ''demo'' := Some H)\<rparr>)
               | Inr result \<Rightarrow>
                   (Inr (Response_json (js_object [(''reply'', chat_reply pf result)])),
                    wd\<lparr>memory := (memory wd)(js ''demo'' := Some (slice_last 20
                              (H @ [assistant_turn (chat_reply pf result)])))\<rparr>))) \<and>
         (req_method request = ''POST'' \<and> req_pathname request = ''/api/chat/stream'' \<and>
          JSON_parse (req_body request) = Some parsed \<and>
          get_prop parsed (js ''message'') = Inr message \<longrightarrow>
            fetch pf (world_env ai ai_s) request wd =
              (let H = slice_last 20
                         (storage_get_history (memory wd (js ''demo'')) @ [user_message message]) in
               case ai_s \<lparr>ai_model = chat_model, ai_messages = system_message # H,
                          ai_stream = True, ai_max_tokens = 400, ai_temperature = ''0.4''\<rparr> of
                 Inl e \<Rightarrow> (Inl e, wd\<lparr>memory := (memory wd)(js ''demo'' := Some H)\<rparr>)
               | Inr up \<Rightarrow>
                   (Inr \<lparr>status = 200,
                         headers = [(''content-type'', ''text/event-stream''),
                                    (''cache-control'', ''no-cache''),
                                    (''connection'', ''keep-alive'')],
                         body = StreamBody (up_chunks up) None\<rparr>,
                    wd\<lparr>memory := (memory wd)(js ''demo'' := Some
                          (if trim (transcript up) = [] then H
                           else slice_last 20 (H @ [assistant_message (transcript up)])))\<rparr>)))"
proof -
  have ne: "js ''instanceId'' \<noteq> js ''user''"
    by (simp add: js_def)
  have i: "map_of (req_searchParams request @ [(js ''user'', js ''demo'')]) (js ''instanceId'') =
           map_of (req_searchParams request) (js ''instanceId'')"
    using ne by (simp add: map_add_def split: option.splits)
  have u: "map_of (req_searchParams request @ [(js ''user'', js ''demo'')]) (js ''user'') =
           Some (js ''demo'')"
    using assms by (simp add: map_add_def split: option.splits)
  let ?request' = "request\<lparr>req_searchParams := req_searchParams request @ [(js ''user'', js ''demo'')]\<rparr>"
  have s: "select_user request = js ''demo''"
    using assms by (simp add: select_user_def)
  have s': "select_user ?request' = js ''demo''"
    using u by (simp add: select_user_def)
  have c: "handle_chat pf env (js ''demo'') ?request' w = handle_chat pf env (js ''demo'') request w"
    by (simp add: handle_chat_def request_json_def)
  have t: "handle_task_start env ?request' w = handle_task_start env request w"
    by (simp add: handle_task_start_def request_json_def)
  have g: "handle_task_status env ?request' w = handle_task_status env request w"
    using i by (simp add: handle_task_status_def)
  have r: "handle_chat_stream env (js ''demo'') ?request' w =
           handle_chat_stream env (js ''demo'') request w"
    by (simp add: handle_chat_stream_def request_json_def)
  have same: "fetch pf env request w = fetch pf env ?request' w"
    unfolding fetch_def s s' Let_def c t g r by simp
  have others: "\<forall>u. u \<noteq> js ''demo'' \<longrightarrow>
      memory (snd (fetch pf (world_env ai ai_s) request wd)) u = memory wd u"
    using fetch_world_elsewhere [of _ request pf ai ai_s wd] by (simp add: s)
  have clear: "req_method request = ''POST'' \<and> req_pathname request = ''/api/clear'' \<longrightarrow>
      fetch pf (world_env ai ai_s) request wd =
        (Inr (Response_json (JObj [(js ''ok'', JBool True)])),
         wd\<lparr>memory := (memory wd)(js ''demo'' := None)\<rparr>)"
    by (simp add: fetch_def s handle_clear_world)
  have chat: "req_method request = ''POST'' \<and> req_pathname request = ''/api/chat'' \<and>
      JSON_parse (req_body request) = Some parsed \<and>
      get_prop parsed (js ''message'') = Inr message \<longrightarrow>
        fetch pf (world_env ai ai_s) request wd =
          (let H = slice_last 20
                     (storage_get_history (memory wd (js ''demo'')) @ [user_message message]) in
           case ai \<lparr>ai_model = chat_model, ai_messages = system_message # H,
                    ai_stream = False, ai_max_tokens = 300, ai_temperature = ''0.4''\<rparr> of
             Inl e \<Rightarrow> (Inl e, wd\<lparr>memory := (memory wd)(js ''demo'' := Some H)\<rparr>)
           | Inr result \<Rightarrow>
               (Inr (Response_json (js_object [(''reply'', chat_reply pf result)])),
                wd\<lparr>memory := (memory wd)(js ''demo'' := Some (slice_last 20
                          (H @ [assistant_turn (chat_reply pf result)])))\<rparr>))"
  proof (intro impI, elim conjE)
    assume m: "req_method request = ''POST''" and p: "req_pathname request = ''/api/chat''"
      and j: "JSON_parse (req_body request) = Some parsed"
      and q: "get_prop parsed (js ''message'') = Inr message"
    have "fetch pf (world_env ai ai_s) request wd =
          handle_chat pf (world_env ai ai_s) (js ''demo'') request wd"
      using m p by (simp add: fetch_def s)
    then show "fetch pf (world_env ai ai_s) request wd =
          (let H = slice_last 20
                     (storage_get_history (memory wd (js ''demo'')) @ [user_message message]) in
           case ai \<lparr>ai_model = chat_model, ai_messages = system_message # H,
                    ai_stream = False, ai_max_tokens = 300, ai_temperature = ''0.4''\<rparr> of
             Inl e \<Rightarrow> (Inl e, wd\<lparr>memory := (memory wd)(js ''demo'' := Some H)\<rparr>)
           | Inr result \<Rightarrow>
               (Inr (Response_json (js_object [(''reply'', chat_reply pf result)])),
                wd\<lparr>memory := (memory wd)(js ''demo'' := Some (slice_last 20
                          (H @ [assistant_turn (chat_reply pf result)])))\<rparr>))"
      by (simp only: handle_chat_world [OF j q])
  qed
  have stream: "req_method request = ''POST'' \<and> req_pathname request = ''/api/chat/stream'' \<and>
      JSON_parse (req_body request) = Some parsed \<and>
      get_prop parsed (js ''message'') = Inr message \<longrightarrow>
        fetch pf (world_env ai ai_s) request wd =
          (let H = slice_last 20
                     (storage_get_history (memory wd (js ''demo'')) @ [user_message message]) in
           case ai_s \<lparr>ai_model = chat_model, ai_messages = system_message # H,
                      ai_stream = True, ai_max_tokens = 400, ai_temperature = ''0.4''\<rparr> of
             Inl e \<Rightarrow> (Inl e, wd\<lparr>memory := (memory wd)(js ''demo'' := Some H)\<rparr>)
           | Inr up \<Rightarrow>
               (Inr \<lparr>status = 200,
                     headers = [(''content-type'', ''text/event-stream''),
                                (''cache-control'', ''no-cache''),
                                (''connection'', ''keep-alive'')],
                     body = StreamBody (up_chunks up) None\<rparr>,
                wd\<lparr>memory := (memory wd)(js ''demo'' := Some
                      (if trim (transcript up) = [] then H
                       else slice_last 20 (H @ [assistant_message (transcript up)])))\<rparr>))"
  proof (intro impI, elim conjE)
    assume m: "req_method request = ''POST''" and p: "req_pathname request = ''/api/chat/stream''"
      and j: "JSON_parse (req_body request) = Some parsed"
      and q: "get_prop parsed (js ''message'') = Inr message"
    have "fetch pf (world_env ai ai_s) request wd =
          handle_chat_stream (world_env ai ai_s) (js ''demo'') request wd"
      using m p by (simp add: fetch_def s)
    then show "fetch pf (world_env ai ai_s) request wd =
          (let H = slice_last 20
                     (storage_get_history (memory wd (js ''demo'')) @ [user_message message]) in
           case ai_s \<lparr>ai_model = chat_model, ai_messages = system_message # H,
                      ai_stream = True, ai_max_tokens = 400, ai_temperature = ''0.4''\<rparr> of
             Inl e \<Rightarrow> (Inl e, wd\<lparr>memory := (memory wd)(js ''demo'' := Some H)\<rparr>)
           | Inr up \<Rightarrow>
               (Inr \<lparr>status = 200,
                     headers = [(''content-type'', ''text/event-stream''),
                                (''cache-control'', ''no-cache''),
                                (''connection'', ''keep-alive'')],
                     body = StreamBody (up_chunks up) None\<rparr>,
                wd\<lparr>memory := (memory wd)(js ''demo'' := Some
                      (if trim (transcript up) = [] then H
                       else slice_last 20 (H @ [assistant_message (transcript up)])))\<rparr>))"
      by (simp only: handle_chat_stream_world [OF j q])
  qed
  show ?thesis
    by (intro conjI) (rule s same others clear chat stream)+
qed

lemma parse_message_hi:
  "JSON_parse (js ''{\"message\":\"hi\"}'') = Some (JObj [(js ''message'', JStr (js ''hi''))])"
  by (simp add: JSON_parse_def js_def is_json_ws_def is_digit_def)

lemma bob_not_demo: "js ''bob'' \<noteq> js ''demo''"
  by (simp add: js_def)

lemma reply_hey:
  "chat_reply pf (Some (JObj [(js ''response'', JStr (js ''hey''))])) = Some (JStr (js ''hey''))"
  by (simp add: chat_reply_def coalesce_def nullish_def opt_prop_def get_prop_def)

theorem no_user_selects_demo_witness:
  "map_of (req_searchParams clear_request) (js ''user'') = None \<and>
   select_user clear_request = js ''demo'' \<and>
   fetch sample_platform (world_env answer_hey stream_Hi) clear_request two_histories =
     (Inr (Response_json (JObj [(js ''ok'', JBool True)])),
      two_histories\<lparr>memory := (memory two_histories)(js ''demo'' := None)\<rparr>) \<and>
   memory (snd (fetch sample_platform (world_env answer_hey stream_Hi) clear_request two_histories))
     (js ''bob'') = Some [user_message (Some (JStr (js ''two'')))] \<and>
   memory (snd (fetch sample_platform (world_env answer_hey stream_Hi) clear_request two_histories))
     (js ''demo'') = None \<and>
   fetch sample_platform (world_env answer_hey stream_Hi) chat_request two_histories =
     (Inr (Response_json (JObj [(js ''reply'', JStr (js ''hey''))])),
      two_histories\<lparr>memory := (memory two_histories)(js ''demo'' :=
        Some [user_message (Some (JStr (js ''one''))), user_message (Some (JStr (js ''hi''))),
              assistant_turn (Some (JStr (js ''hey'')))])\<rparr>) \<and>
   fetch sample_platform (world_env answer_hey stream_Hi) stream_request two_histories =
     (Inr \<lparr>status = 200,
           headers = [(''content-type'', ''text/event-stream''),
                      (''cache-control'', ''no-cache''),
                      (''connection'', ''keep-alive'')],
           body = StreamBody [frame_Hi] None\<rparr>,
      two_histories\<lparr>memory := (memory two_histories)(js ''demo'' :=
        Some [user_message (Some (JStr (js ''one''))), user_message (Some (JStr (js ''hi''))),
              assistant_message (js ''Hi'')])\<rparr>)"
proof -
  let ?env = "world_env answer_hey stream_Hi"
  have h1: "map_of (req_searchParams clear_request) (js ''user'') = None"
    by (simp add: clear_request_def)
  have h2: "map_of (req_searchParams chat_request) (js ''user'') = None"
    by (simp add: chat_request_def)
  have h3: "map_of (req_searchParams stream_request) (js ''user'') = None"
    by (simp add: stream_request_def)
  have g: "get_prop (JObj [(js ''message'', JStr (js ''hi''))]) (js ''message'') =
           Inr (Some (JStr (js ''hi'')))"
    by (simp add: get_prop_def)
  have d: "memory two_histories (js ''demo'') = Some [user_message (Some (JStr (js ''one'')))]"
    using bob_not_demo by (simp add: two_histories_def)
  have b: "memory two_histories (js ''bob'') = Some [user_message (Some (JStr (js ''two'')))]"
    by (simp add: two_histories_def)
  note clear = no_user_selects_demo
    [where request = clear_request and pf = sample_platform and env = ?env and w = two_histories
       and ai = answer_hey and ai_s = stream_Hi and wd = two_histories
       and parsed = JNull and message = None, OF h1]
  note chat = no_user_selects_demo
    [where request = chat_request and pf = sample_platform and env = ?env and w = two_histories
       and ai = answer_hey and ai_s = stream_Hi and wd = two_histories
       and parsed = "JObj [(js ''message'', JStr (js ''hi''))]"
       and message = "Some (JStr (js ''hi''))", OF h2]
  note stream = no_user_selects_demo
    [where request = stream_request and pf = sample_platform and env = ?env and w = two_histories
       and ai = answer_hey and ai_s = stream_Hi and wd = two_histories
       and parsed = "JObj [(js ''message'', JStr (js ''hi''))]"
       and message = "Some (JStr (js ''hi''))", OF h3]
  from clear have s: "select_user clear_request = js ''demo''"
    by (rule conjunct1)
  have c1: "fetch sample_platform ?env clear_request two_histories =
     (Inr (Response_json (JObj [(js ''ok'', JBool True)])),
      two_histories\<lparr>memory := (memory two_histories)(js ''demo'' := None)\<rparr>)"
    by (rule clear [THEN conjunct2, THEN conjunct2, THEN conjunct2, THEN conjunct1, THEN mp])
       (simp add: clear_request_def)
  from clear [THEN conjunct2, THEN conjunct2, THEN conjunct1] bob_not_demo
  have c2: "memory (snd (fetch sample_platform ?env clear_request two_histories)) (js ''bob'') =
            memory two_histories (js ''bob'')"
    by blast
  from c1 have c3: "memory (snd (fetch sample_platform ?env clear_request two_histories))
                      (js ''demo'') = None"
    by simp
  have "req_method chat_request = ''POST'' \<and> req_pathname chat_request = ''/api/chat'' \<and>
        JSON_parse (req_body chat_request) = Some (JObj [(js ''message'', JStr (js ''hi''))]) \<and>
        get_prop (JObj [(js ''message'', JStr (js ''hi''))]) (js ''message'') =
          Inr (Some (JStr (js ''hi'')))"
    by (simp add: chat_request_def parse_message_hi g)
  from chat [THEN conjunct2, THEN conjunct2, THEN conjunct2, THEN conjunct2, THEN conjunct1,
             THEN mp, OF this]
  have c4: "fetch sample_platform ?env chat_request two_histories =
     (Inr (Response_json (JObj [(js ''reply'', JStr (js ''hey''))])),
      two_histories\<lparr>memory := (memory two_histories)(js ''demo'' :=
        Some [user_message (Some (JStr (js ''one''))), user_message (Some (JStr (js ''hi''))),
              assistant_turn (Some (JStr (js ''hey'')))])\<rparr>)"
    by (simp add: d storage_get_history_def slice_last_def answer_hey_def reply_hey
          js_object_def)
  have "req_method stream_request = ''POST'' \<and>
        req_pathname stream_request = ''/api/chat/stream'' \<and>
        JSON_parse (req_body stream_request) = Some (JObj [(js ''message'', JStr (js ''hi''))]) \<and>
        get_prop (JObj [(js ''message'', JStr (js ''hi''))]) (js ''message'') =
          Inr (Some (JStr (js ''hi'')))"
    by (simp add: stream_request_def parse_message_hi g)
  from stream [THEN conjunct2, THEN conjunct2, THEN conjunct2, THEN conjunct2, THEN conjunct2,
               THEN mp, OF this]
  have c5: "fetch sample_platform ?env stream_request two_histories =
     (Inr \<lparr>status = 200,
           headers = [(''content-type'', ''text/event-stream''),
                      (''cache-control'', ''no-cache''),
                      (''connection'', ''keep-alive'')],
           body = StreamBody [frame_Hi] None\<rparr>,
      two_histories\<lparr>memory := (memory two_histories)(js ''demo'' :=
        Some [user_message (Some (JStr (js ''one''))), user_message (Some (JStr (js ''hi''))),
              assistant_message (js ''Hi'')])\<rparr>)"
    by (simp add: d storage_get_history_def slice_last_def stream_Hi_def frame_Hi_transcript
          trim_Hi)
  from h1 s c1 c2 b c3 c4 c5 show ?thesis by simp
qed

text \<open>
  Claim C10. A request whose path does not start with \<open>/api/\<close> is answered with an empty
  404. A request under \<open>/api/\<close> that is none of the five routes is answered with status
  200 and the JSON body \<open>{"name": "Cloudflare"}\<close>.
\<close>

theorem unmatched_requests:
  "(\<not> starts_with (req_pathname request) ''/api/'' \<longrightarrow>
      fetch pf env request w = (Inr \<lparr>status = 404, headers = [], body = NoBody\<rparr>, w)) \<and>
   (starts_with (req_pathname request) ''/api/'' \<and>
    (req_method request, req_pathname request) \<notin>
      {(''POST'', ''/api/chat''), (''POST'', ''/api/task''), (''GET'', ''/api/task''),
       (''POST'', ''/api/clear''), (''POST'', ''/api/chat/stream'')} \<longrightarrow>
      fetch pf env request w =
        (Inr \<lparr>status = 200, headers = [(''content-type'', ''application/json'')],
              body = JsonBody (JObj [(js ''name'', JStr (js ''Cloudflare''))])\<rparr>, w))"
  by (auto simp: fetch_def Response_json_def js_object_def)

theorem unmatched_requests_witness:
  "\<not> starts_with ''/favicon.ico'' ''/api/'' \<and>
   fetch sample_platform (world_env no_AI no_AI)
     \<lparr>req_method = ''GET'', req_pathname = ''/favicon.ico'',
      req_searchParams = [], req_body = []\<rparr> empty_world =
     (Inr \<lparr>status = 404, headers = [], body = NoBody\<rparr>, empty_world) \<and>
   starts_with ''/api/chat'' ''/api/'' \<and>
   fetch sample_platform (world_env no_AI no_AI)
     \<lparr>req_method = ''GET'', req_pathname = ''/api/chat'',
      req_searchParams = [], req_body = []\<rparr> empty_world =
     (Inr \<lparr>status = 200, headers = [(''content-type'', ''application/json'')],
           body = JsonBody (JObj [(js ''name'', JStr (js ''Cloudflare''))])\<rparr>, empty_world)"
  using unmatched_requests
          [of "\<lparr>req_method = ''GET'', req_pathname = ''/favicon.ico'',
                req_searchParams = [], req_body = []\<rparr>"
              sample_platform "world_env no_AI no_AI" empty_world]
        unmatched_requests
          [of "\<lparr>req_method = ''GET'', req_pathname = ''/api/chat'',
                req_searchParams = [], req_body = []\<rparr>"
              sample_platform "world_env no_AI no_AI" empty_world]
  by simp

section \<open>Properties of the plan step\<close>

text \<open>
  Whenever the text of the model does not parse to an object whose \<open>plan\<close> is an array,
  the plan is the list of the three placeholder steps.
\<close>

lemma plan_of_text_fallback:
  assumes "\<forall>kvs plan. JSON_parse text = Some (JObj kvs) \<longrightarrow>
                      map_of kvs (js ''plan'') \<noteq> Some (JArr plan)"
  shows "plan_of_text pf text = Inr fallback_plan"
proof (cases "JSON_parse text")
  case None
  then show ?thesis by (simp add: plan_of_text_def safeJsonParse_def)
next
  case (Some v)
  show ?thesis
  proof (cases v)
    case (JObj kvs)
    with Some assms have "\<forall>plan. map_of kvs (js ''plan'') \<noteq> Some (JArr plan)" by simp
    with Some JObj show ?thesis
      by (auto simp: plan_of_text_def safeJsonParse_def get_prop_def
               split: option.splits json.splits)
  qed (simp_all add: Some plan_of_text_def safeJsonParse_def get_prop_def)
qed

text \<open>A plan that the step returns has at most 3 items.\<close>

lemma plan_of_text_length: "plan_of_text pf text = Inr plan \<Longrightarrow> length plan \<le> 3"
  by (auto simp: plan_of_text_def fallback_plan_def Let_def
           split: option.splits json.splits sum.splits if_splits)

lemma parse_plan_with_toString:
  "JSON_parse (js ''{\"plan\":[\"a\",\"b\",\"c\",{\"toString\":1}]}'') =
     Some (JObj [(js ''plan'',
                  JArr [JStr (js ''a''), JStr (js ''b''), JStr (js ''c''),
                        JObj [(js ''toString'', JNum (js ''1''))]])])"
  by (simp add: JSON_parse_def js_def is_json_ws_def is_digit_def lex_number_def lex_int_def
        lex_frac_def lex_exp_def lex_digits_def)

text \<open>
  Claim C2, at an input where the code departs from it. The model answers with valid
  JSON whose \<open>plan\<close> is an array, and the fourth item is an object with a property
  \<open>toString\<close>. \<open>map\<close> converts every item before \<open>slice\<close> cuts the list, so \<open>String\<close>
  throws a \<open>TypeError\<close> on the fourth item: the step raises and yields no plan, neither
  the first three items nor the placeholder steps.
\<close>

theorem plan_conversion_raises:
  "plan_of_text pf (js ''{\"plan\":[\"a\",\"b\",\"c\",{\"toString\":1}]}'') = Inl TypeError \<and>
   plan_step pf
     (\<lambda>input. Inr (Some (JObj [(js ''response'',
                                JStr (js ''{\"plan\":[\"a\",\"b\",\"c\",{\"toString\":1}]}''))])))
     goal = Inl TypeError"
proof -
  have m: "map_of [(js ''plan'',
                    JArr [JStr (js ''a''), JStr (js ''b''), JStr (js ''c''),
                          JObj [(js ''toString'', JNum (js ''1''))]])] (js ''plan'') =
           Some (JArr [JStr (js ''a''), JStr (js ''b''), JStr (js ''c''),
                       JObj [(js ''toString'', JNum (js ''1''))]])"
    by simp
  have p: "plan_of_text pf (js ''{\"plan\":[\"a\",\"b\",\"c\",{\"toString\":1}]}'') = Inl TypeError"
    by (simp add: plan_of_text_def safeJsonParse_def parse_plan_with_toString get_prop_def m)
  have t: "ai_text pf (Some (JObj [(js ''response'',
                                    JStr (js ''{\"plan\":[\"a\",\"b\",\"c\",{\"toString\":1}]}''))])) =
           Inr (js ''{\"plan\":[\"a\",\"b\",\"c\",{\"toString\":1}]}'')"
    by (simp add: ai_text_def coalesce_def nullish_def opt_prop_def get_prop_def)
  show ?thesis
    by (simp add: plan_step_def t p)
qed

text \<open>A plan of four items that can be converted is cut to its first three.\<close>

lemma plan_of_four_items:
  "plan_of_text sample_platform (js ''{\"plan\":[\"a\",2,null,\"d\"]}'') =
     Inr [js ''a'', js ''2'', js ''null'']"
  by (simp add: plan_of_text_def safeJsonParse_def JSON_parse_def js_def is_json_ws_def
        is_digit_def get_prop_def sample_platform_def lex_number_def lex_int_def lex_frac_def
        lex_exp_def lex_digits_def)

end
